theory Spec2Isabelle
  imports Complex_Main
begin

section \<open>Strings of the JavaScript runtime\<close>

text \<open>
  A JavaScript string is a sequence of UTF-16 code units; \<open>length\<close>, \<open>slice\<close>, \<open>includes\<close>
  and the regular expressions of the sources (none has the \<open>u\<close> flag) all work on code
  units. A code unit is a natural number here, and \<open>str\<close> turns a literal of the theory
  into its code units.
\<close>

type_synonym jsstring = "nat list"

definition str :: "string \<Rightarrow> jsstring" where
  "str s = map of_char s"

text \<open>
  \<open>String.prototype.toLowerCase\<close> on ASCII text: the letters A-Z go to a-z and every
  other ASCII code unit stays. \<open>toLowerCase\<close> is the method on strings of ASCII code units;
  it keeps the code units outside ASCII, as the runtime does for the characters without a
  lower-case mapping. It is the lower-casing of the extractor; the scorer uses
  \<open>runtimeLowerCase\<close>, which takes the images of the other code units from the runtime.
\<close>

definition lowerUnit :: "nat \<Rightarrow> nat" where
  "lowerUnit c = (if 65 \<le> c \<and> c \<le> 90 then c + 32 else c)"

definition toLowerCase :: "jsstring \<Rightarrow> jsstring" where
  "toLowerCase s = map lowerUnit s"

text \<open>
  \<open>String.prototype.toLowerCase\<close> on any text. The method maps an ASCII code unit
  whatever stands around it, and a code unit outside ASCII by the Unicode tables and their
  context rules (a capital sigma at the end of a word, the two halves of a surrogate pair;
  U+0130 becomes the two code units of "i" and U+0307, the Kelvin sign U+212A becomes "k").
  \<open>other before c after\<close> stands for those tables: the code units that replace the
  non-ASCII code unit \<open>c\<close> found between \<open>before\<close> and \<open>after\<close>.
\<close>

fun lowerScan :: "(jsstring \<Rightarrow> nat \<Rightarrow> jsstring \<Rightarrow> jsstring) \<Rightarrow> jsstring \<Rightarrow> jsstring \<Rightarrow> jsstring" where
  "lowerScan other before [] = []"
| "lowerScan other before (c # after) =
     (if c < 128 then [lowerUnit c] else other before c after) @
     lowerScan other (before @ [c]) after"

fun startsWith :: "jsstring \<Rightarrow> jsstring \<Rightarrow> bool" where
  "startsWith s [] = True"
| "startsWith [] (p # ps) = False"
| "startsWith (x # xs) (p # ps) = (x = p \<and> startsWith xs ps)"

fun str_includes :: "jsstring \<Rightarrow> jsstring \<Rightarrow> bool" where
  "str_includes [] p = (p = [])"
| "str_includes (x # xs) p = (startsWith (x # xs) p \<or> str_includes xs p)"

text \<open>Truthiness of an optional string: \<open>undefined\<close> and the empty string are falsy.\<close>

fun truthy :: "jsstring option \<Rightarrow> bool" where
  "truthy None = False"
| "truthy (Some s) = (s \<noteq> [])"

text \<open>
  How a template literal renders a whole number: in decimal digits when its absolute value
  is below ten to the power 21, in exponent form from there on; \<open>expo\<close> stands for the
  exponent form.
\<close>

fun digits :: "nat \<Rightarrow> jsstring" where
  "digits n = (if n < 10 then [48 + n] else digits (n div 10) @ [48 + n mod 10])"

definition Number_toString :: "(int \<Rightarrow> jsstring) \<Rightarrow> int \<Rightarrow> jsstring" where
  "Number_toString expo i =
     (if \<bar>i\<bar> \<ge> 10 ^ 21 then expo i
      else if i < 0 then 45 # digits (nat (- i))
      else digits (nat i))"

section \<open>Data model (models/types.ts)\<close>

text \<open>
  The interfaces of the sources, field by field. An optional field is an \<open>option\<close>; the
  fields of type \<open>number\<close> hold counts and are integers here. Field names are global in
  a theory, so three fields are renamed: \<open>tool\<close> and \<open>notes\<close> of \<open>ToolScore\<close> are
  \<open>scoredTool\<close> and \<open>noteList\<close>, \<open>source\<close> of \<open>NewsItem\<close> is \<open>newsSource\<close>.
\<close>

datatype ToolCategory =
  ClaudePlugin | ClaudeSkill | NpmPackage | CliTool | Library | Framework | Other

fun categoryText :: "ToolCategory \<Rightarrow> jsstring" where
  "categoryText ClaudePlugin = str ''claude-plugin''"
| "categoryText ClaudeSkill = str ''claude-skill''"
| "categoryText NpmPackage = str ''npm-package''"
| "categoryText CliTool = str ''cli-tool''"
| "categoryText Library = str ''library''"
| "categoryText Framework = str ''framework''"
| "categoryText Other = str ''other''"

record Tool =
  name :: jsstring
  slug :: jsstring
  description :: jsstring
  installCommand :: "jsstring option"
  githubUrl :: "jsstring option"
  source :: "jsstring option"
  category :: ToolCategory
  extractedAt :: jsstring

record GitHubData =
  repoUrl :: jsstring
  stars :: int
  forks :: int
  openIssues :: int
  lastCommitDate :: jsstring
  createdAt :: jsstring
  language :: jsstring
  license :: "jsstring option"
  hasTests :: bool
  hasCI :: bool
  readme :: "jsstring option"

record NpmData =
  packageName :: jsstring
  weeklyDownloads :: int
  version :: jsstring
  lastPublished :: jsstring
  dependencies :: int
  devDependencies :: int

record WebSource =
  url :: jsstring
  title :: jsstring
  snippet :: jsstring

record ToolResearch =
  tool :: Tool
  github :: "GitHubData option"
  npm :: "NpmData option"
  webSources :: "WebSource list"
  researchedAt :: jsstring

datatype Recommendation = SKIP | WATCH | BUILD

record ToolScore =
  scoredTool :: Tool
  research :: ToolResearch
  usefulnessScore :: int
  qualityScore :: int
  innovationScore :: int
  momentumScore :: int
  totalScore :: int
  recommendation :: Recommendation
  noteList :: "jsstring list"
  scoredAt :: jsstring


record Weights =
  usefulness :: real
  quality :: real
  innovation :: real
  momentum :: real

record Thresholds =
  build :: int
  watch :: int

record ScoringConfig =
  weights :: Weights
  thresholds :: Thresholds

section \<open>The scoring engine (commands/score.ts)\<close>

text \<open>
  What scoring reads from the runtime: the parser behind \<open>new Date(s).getTime()\<close>
  (milliseconds since the epoch, \<open>None\<close> for an invalid date, whose time value is NaN),
  the two readings of \<open>Date.now()\<close> in \<open>calculateMomentumScore\<close>, the reading of
  \<open>new Date().toISOString()\<close> that becomes \<open>scoredAt\<close>, the lower-case images of the
  code units outside ASCII (see \<open>lowerScan\<close>) and the exponent form of a number (see
  \<open>Number_toString\<close>).
\<close>

record Runtime =
  getTime :: "jsstring \<Rightarrow> int option"
  nowCommit :: int
  nowPublish :: int
  nowISO :: jsstring
  lowerOther :: "jsstring \<Rightarrow> nat \<Rightarrow> jsstring \<Rightarrow> jsstring"
  exponentForm :: "int \<Rightarrow> jsstring"

text \<open>\<open>s.toLowerCase()\<close> in the scorer.\<close>

definition runtimeLowerCase :: "Runtime \<Rightarrow> jsstring \<Rightarrow> jsstring" where
  "runtimeLowerCase rt s = lowerScan (lowerOther rt) [] s"

text \<open>The local constant \<open>config\<close> of \<open>scoreTool\<close>.\<close>

definition config :: ScoringConfig where
  "config = \<lparr> weights = \<lparr> usefulness = 0.3, quality = 0.3, innovation = 0.2, momentum = 0.2 \<rparr>,
              thresholds = \<lparr> build = 70, watch = 40 \<rparr> \<rparr>"

text \<open>\<open>Math.round\<close>: the nearest integer, a half going up.\<close>

definition Math_round :: "real \<Rightarrow> int" where
  "Math_round x = \<lfloor>x + 1 / 2\<rfloor>"

text \<open>
  Each sub-scorer owns a local \<open>score\<close> and pushes onto the shared \<open>notes\<close> array; the
  model threads the pair through the statements in the order of the source.
\<close>

text \<open>The local constants \<open>text\<close> of the usefulness and of the innovation scorer.\<close>

definition usefulnessText :: "Runtime \<Rightarrow> Tool \<Rightarrow> jsstring" where
  "usefulnessText rt t =
     runtimeLowerCase rt
       (name t @ str '' '' @ description t @ str '' '' @ categoryText (category t))"

definition innovationText :: "Runtime \<Rightarrow> ToolResearch \<Rightarrow> jsstring" where
  "innovationText rt r =
     runtimeLowerCase rt (name (tool r) @ str '' '' @ description (tool r))"

definition calculateUsefulnessScore :: "Runtime \<Rightarrow> ToolResearch \<Rightarrow> jsstring list \<Rightarrow> int \<times> jsstring list" where
  "calculateUsefulnessScore rt r notes0 =
     (let score = 50;
          t = tool r;
          text = usefulnessText rt t;
          (score, ns) =
            (if str_includes text (str ''claude'') \<or> str_includes text (str ''anthropic'')
             then (score + 20, notes0 @ [str ''Claude-related tool (+20)''])
             else (score, notes0));
          (score, ns) =
            (if category t = ClaudePlugin \<or> category t = ClaudeSkill
             then (score + 15, ns @ [str ''Claude plugin/skill (+15)''])
             else (score, ns));
          (score, ns) =
            (if category t = CliTool
             then (score + 10, ns @ [str ''CLI tool (+10)''])
             else (score, ns));
          (score, ns) =
            (if truthy (installCommand t)
             then (score + 5, ns @ [str ''Has install command (+5)''])
             else (score, ns))
      in (min 100 (max 0 score), ns))"

definition githubQuality :: "Runtime \<Rightarrow> GitHubData \<Rightarrow> int \<times> jsstring list \<Rightarrow> int \<times> jsstring list" where
  "githubQuality rt g sn =
     (let (score, ns) = sn;
          (score, ns) =
            (if stars g > 1000
             then (score + 25, ns @ [str ''High stars: '' @ Number_toString (exponentForm rt) (stars g) @ str '' (+25)''])
             else if stars g > 100
             then (score + 15, ns @ [str ''Good stars: '' @ Number_toString (exponentForm rt) (stars g) @ str '' (+15)''])
             else if stars g > 10
             then (score + 5, ns @ [str ''Some stars: '' @ Number_toString (exponentForm rt) (stars g) @ str '' (+5)''])
             else (score, ns));
          (score, ns) =
            (if hasTests g then (score + 10, ns @ [str ''Has tests (+10)'']) else (score, ns));
          (score, ns) =
            (if hasCI g then (score + 5, ns @ [str ''Has CI (+5)'']) else (score, ns));
          (score, ns) =
            (if truthy (license g) then (score + 5, ns @ [str ''Has license (+5)'']) else (score, ns))
      in (score, ns))"

definition npmQuality :: "NpmData \<Rightarrow> int \<times> jsstring list \<Rightarrow> int \<times> jsstring list" where
  "npmQuality n sn =
     (let (score, ns) = sn
      in if weeklyDownloads n > 10000
         then (score + 15, ns @ [str ''High npm downloads (+15)''])
         else if weeklyDownloads n > 1000
         then (score + 10, ns @ [str ''Good npm downloads (+10)''])
         else (score, ns))"

definition calculateQualityScore :: "Runtime \<Rightarrow> ToolResearch \<Rightarrow> jsstring list \<Rightarrow> int \<times> jsstring list" where
  "calculateQualityScore rt r notes0 =
     (let sn = (30, notes0);
          sn = (case github r of None \<Rightarrow> sn | Some g \<Rightarrow> githubQuality rt g sn);
          sn = (case npm r of None \<Rightarrow> sn | Some n \<Rightarrow> npmQuality n sn);
          (score, ns) = sn
      in (min 100 (max 0 score), ns))"

definition innovativeTerms :: "jsstring list" where
  "innovativeTerms =
     [str ''novel'', str ''first'', str ''unique'', str ''new approach'',
      str ''revolutionary'', str ''breakthrough'']"

text \<open>The \<open>for ... of\<close> loop over the terms, left at the first term found (\<open>break\<close>).\<close>

fun innovativeLoop :: "jsstring \<Rightarrow> jsstring list \<Rightarrow> int \<times> jsstring list \<Rightarrow> int \<times> jsstring list" where
  "innovativeLoop text [] sn = sn"
| "innovativeLoop text (term # terms) sn =
     (if str_includes text term
      then (fst sn + 15, snd sn @ [str ''Innovative term: '' @ [34] @ term @ [34] @ str '' (+15)''])
      else innovativeLoop text terms sn)"

definition calculateInnovationScore :: "Runtime \<Rightarrow> ToolResearch \<Rightarrow> jsstring list \<Rightarrow> int \<times> jsstring list" where
  "calculateInnovationScore rt r notes0 =
     (let text = innovationText rt r;
          (score, ns) = innovativeLoop text innovativeTerms (50, notes0);
          (score, ns) =
            (if str_includes text (str ''ai'') \<or> str_includes text (str ''llm'') \<or> str_includes text (str ''agent'')
             then (score + 10, ns @ [str ''AI/LLM related (+10)''])
             else (score, ns))
      in (min 100 (max 0 score), ns))"

text \<open>
  \<open>(Date.now() - d.getTime()) / (1000 * 60 * 60 * 24)\<close>. With an invalid date the quotient
  is NaN and every comparison with it is false, hence the \<open>option\<close>.
\<close>

definition daysSince :: "int \<Rightarrow> int option \<Rightarrow> real option" where
  "daysSince now t = map_option (\<lambda>ms. real_of_int (now - ms) / (1000 * 60 * 60 * 24)) t"

fun numLess :: "real option \<Rightarrow> real \<Rightarrow> bool" where
  "numLess None bound = False"
| "numLess (Some d) bound = (d < bound)"

definition githubMomentum :: "Runtime \<Rightarrow> GitHubData \<Rightarrow> int \<times> jsstring list \<Rightarrow> int \<times> jsstring list" where
  "githubMomentum rt g sn =
     (let (score, ns) = sn;
          lastCommit = getTime rt (lastCommitDate g);
          daysSinceCommit = daysSince (nowCommit rt) lastCommit
      in if numLess daysSinceCommit 7
         then (score + 30, ns @ [str ''Very recent activity (<7 days) (+30)''])
         else if numLess daysSinceCommit 30
         then (score + 20, ns @ [str ''Recent activity (<30 days) (+20)''])
         else if numLess daysSinceCommit 90
         then (score + 10, ns @ [str ''Some activity (<90 days) (+10)''])
         else (score, ns))"

definition npmMomentum :: "Runtime \<Rightarrow> NpmData \<Rightarrow> int \<times> jsstring list \<Rightarrow> int \<times> jsstring list" where
  "npmMomentum rt n sn =
     (let (score, ns) = sn;
          lastPublish = getTime rt (lastPublished n);
          daysSincePublish = daysSince (nowPublish rt) lastPublish
      in if numLess daysSincePublish 30
         then (score + 15, ns @ [str ''Recently published (+15)''])
         else (score, ns))"

definition calculateMomentumScore :: "Runtime \<Rightarrow> ToolResearch \<Rightarrow> jsstring list \<Rightarrow> int \<times> jsstring list" where
  "calculateMomentumScore rt r notes0 =
     (let sn = (40, notes0);
          sn = (case github r of None \<Rightarrow> sn | Some g \<Rightarrow> githubMomentum rt g sn);
          sn = (case npm r of None \<Rightarrow> sn | Some n \<Rightarrow> npmMomentum rt n sn);
          (score, ns) = sn
      in (min 100 (max 0 score), ns))"

text \<open>The \<open>if / else if / else\<close> chain that turns the total score into the recommendation.\<close>

definition recommend :: "ScoringConfig \<Rightarrow> int \<Rightarrow> Recommendation" where
  "recommend cfg totalS =
     (if totalS \<ge> build (thresholds cfg) then BUILD
      else if totalS \<ge> watch (thresholds cfg) then WATCH
      else SKIP)"

text \<open>
  The weighted total. The sum is computed in exact arithmetic. The source computes it in
  IEEE doubles; the scores that the sub-scorers return are multiples of 5 up to 100, for
  which the four products and their sum are multiples of 1/2 that doubles represent
  exactly.
\<close>

definition weightedTotal :: "ScoringConfig \<Rightarrow> int \<Rightarrow> int \<Rightarrow> int \<Rightarrow> int \<Rightarrow> int" where
  "weightedTotal cfg usefulnessS qualityS innovationS momentumS =
     Math_round
       (real_of_int usefulnessS * usefulness (weights cfg) +
        real_of_int qualityS * quality (weights cfg) +
        real_of_int innovationS * innovation (weights cfg) +
        real_of_int momentumS * momentum (weights cfg))"

definition scoreTool :: "Runtime \<Rightarrow> ToolResearch \<Rightarrow> ToolScore" where
  "scoreTool rt r =
     (let ns = [];
          (usefulnessS, ns) = calculateUsefulnessScore rt r ns;
          (qualityS, ns) = calculateQualityScore rt r ns;
          (innovationS, ns) = calculateInnovationScore rt r ns;
          (momentumS, ns) = calculateMomentumScore rt r ns;
          totalS = weightedTotal config usefulnessS qualityS innovationS momentumS
      in \<lparr> scoredTool = tool r, research = r,
           usefulnessScore = usefulnessS, qualityScore = qualityS,
           innovationScore = innovationS, momentumScore = momentumS,
           totalScore = totalS, recommendation = recommend config totalS,
           noteList = ns, scoredAt = nowISO rt \<rparr>)"

section \<open>String methods and regular expressions of the runtime\<close>

subsection \<open>Character classes\<close>

text \<open>
  A class is a list of inclusive ranges of code units. \<open>whiteSpace\<close> is what \<open>\s\<close> matches
  and what \<open>trim\<close> strips (white space and line terminators); \<open>lineTerminators\<close> is what
  the dot does not match.
\<close>

fun in_ranges :: "(nat \<times> nat) list \<Rightarrow> nat \<Rightarrow> bool" where
  "in_ranges [] c = False"
| "in_ranges ((lo, hi) # rs) c = ((lo \<le> c \<and> c \<le> hi) \<or> in_ranges rs c)"

definition whiteSpace :: "(nat \<times> nat) list" where
  "whiteSpace = [(9, 13), (32, 32), (160, 160), (5760, 5760), (8192, 8202), (8232, 8233),
                 (8239, 8239), (8287, 8287), (12288, 12288), (65279, 65279)]"

definition lineTerminators :: "(nat \<times> nat) list" where
  "lineTerminators = [(10, 10), (13, 13), (8232, 8233)]"

definition isWhite :: "nat \<Rightarrow> bool" where
  "isWhite c = in_ranges whiteSpace c"

subsection \<open>String methods\<close>

definition trim :: "jsstring \<Rightarrow> jsstring" where
  "trim s = rev (dropWhile isWhite (rev (dropWhile isWhite s)))"

text \<open>\<open>s.split(c)\<close> for a separator of one code unit; the result is never empty.\<close>

fun splitFrom :: "nat \<Rightarrow> jsstring \<Rightarrow> jsstring \<Rightarrow> jsstring list" where
  "splitFrom sep cur [] = [cur]"
| "splitFrom sep cur (x # xs) =
     (if x = sep then cur # splitFrom sep [] xs else splitFrom sep (cur @ [x]) xs)"

definition splitOn :: "nat \<Rightarrow> jsstring \<Rightarrow> jsstring list" where
  "splitOn sep s = splitFrom sep [] s"

fun join :: "jsstring \<Rightarrow> jsstring list \<Rightarrow> jsstring" where
  "join sep [] = []"
| "join sep [x] = x"
| "join sep (x # y # ys) = x @ sep @ join sep (y # ys)"

text \<open>\<open>s.replace(c, rep)\<close> with a string pattern of one code unit: the first occurrence only.\<close>

fun replaceUnit :: "nat \<Rightarrow> jsstring \<Rightarrow> jsstring \<Rightarrow> jsstring" where
  "replaceUnit c rep [] = []"
| "replaceUnit c rep (x # xs) = (if x = c then rep @ xs else x # replaceUnit c rep xs)"

text \<open>The operator \<open>||\<close> on an optional string and a default.\<close>

fun orElse :: "jsstring option \<Rightarrow> jsstring \<Rightarrow> jsstring" where
  "orElse None d = d"
| "orElse (Some s) d = (if s \<noteq> [] then s else d)"

subsection \<open>A backtracking matcher\<close>

text \<open>
  The regular expressions of the sources, as syntax trees. \<open>Cls neg rs\<close> is a class
  (negated when \<open>neg\<close>), \<open>Star\<close> the greedy and \<open>LazyStar\<close> the lazy repetition, \<open>Grp n\<close> the
  \<open>n\<close>-th capture group, \<open>Bol\<close> and \<open>Eol\<close> the assertions \<open>^\<close> and \<open>$\<close> (no pattern of the
  sources has the \<open>m\<close> flag), \<open>Ahead\<close> the lookahead \<open>(?=...)\<close>.
\<close>

datatype regex =
    Eps
  | Cls bool "(nat \<times> nat) list"
  | Seq regex regex
  | Alt regex regex
  | Star regex
  | LazyStar regex
  | Grp nat regex
  | Bol
  | Eol
  | Ahead regex

type_synonym captures = "(nat \<times> jsstring) list"

text \<open>
  A state of the matcher: whether it stands at the start of the input, the input that is
  left, and the groups captured so far (the latest first).
\<close>

type_synonym mstate = "bool \<times> jsstring \<times> captures"

text \<open>
  \<open>ms r st\<close> lists the states in which a match of \<open>r\<close> from \<open>st\<close> can end, in the order
  in which the backtracking matcher of the language tries them: the first alternative
  before the second, one more round of a greedy repetition before leaving it, leaving a
  lazy repetition before one more round. A round of a repetition that consumes nothing is
  rejected, as the language does.
\<close>

function ms :: "regex \<Rightarrow> mstate \<Rightarrow> mstate list" where
  "ms Eps st = [st]"
| "ms (Cls neg rs) (b, [], c) = []"
| "ms (Cls neg rs) (b, x # xs, c) = (if in_ranges rs x \<noteq> neg then [(False, xs, c)] else [])"
| "ms (Seq r1 r2) st = concat (map (ms r2) (ms r1 st))"
| "ms (Alt r1 r2) st = ms r1 st @ ms r2 st"
| "ms (Star r) (b, xs, c) =
     concat (map (\<lambda>(b', xs', c'). if length xs' < length xs then ms (Star r) (b', xs', c') else [])
                 (ms r (b, xs, c)))
     @ [(b, xs, c)]"
| "ms (LazyStar r) (b, xs, c) =
     (b, xs, c) #
     concat (map (\<lambda>(b', xs', c'). if length xs' < length xs then ms (LazyStar r) (b', xs', c') else [])
                 (ms r (b, xs, c)))"
| "ms (Grp n r) (b, xs, c) =
     map (\<lambda>(b', xs', c'). (b', xs', (n, take (length xs - length xs') xs) # c')) (ms r (b, xs, c))"
| "ms Bol (b, xs, c) = (if b then [(b, xs, c)] else [])"
| "ms Eol (b, xs, c) = (if xs = [] then [(b, xs, c)] else [])"
| "ms (Ahead r) st = (case ms r st of [] \<Rightarrow> [] | _ # _ \<Rightarrow> [st])"
  by pat_completeness auto
termination
  by (relation "inv_image (less_than <*lex*> less_than) (\<lambda>(r, b, xs, c). (size r, length xs))") auto

declare ms.simps [simp del]

text \<open>Derived forms: \<open>r+\<close>, \<open>r+?\<close>, \<open>r?\<close>, a sequence, one character, a literal.\<close>

definition Plus :: "regex \<Rightarrow> regex" where
  "Plus r = Seq r (Star r)"

definition LazyPlus :: "regex \<Rightarrow> regex" where
  "LazyPlus r = Seq r (LazyStar r)"

definition Opt :: "regex \<Rightarrow> regex" where
  "Opt r = Alt r Eps"

definition seqs :: "regex list \<Rightarrow> regex" where
  "seqs rs = foldr Seq rs Eps"

definition cunit :: "nat \<Rightarrow> regex" where
  "cunit c = Cls False [(c, c)]"

definition lit :: "string \<Rightarrow> regex" where
  "lit s = seqs (map cunit (str s))"

text \<open>
  A literal under the \<open>i\<close> flag. Without the \<open>u\<close> flag a code unit matches an ASCII letter
  of the pattern only when it is that letter in either case.
\<close>

definition cunitI :: "nat \<Rightarrow> regex" where
  "cunitI c =
     (if 65 \<le> c \<and> c \<le> 90 then Cls False [(c, c), (c + 32, c + 32)]
      else if 97 \<le> c \<and> c \<le> 122 then Cls False [(c, c), (c - 32, c - 32)]
      else Cls False [(c, c)])"

definition litI :: "string \<Rightarrow> regex" where
  "litI s = seqs (map cunitI (str s))"

definition space :: regex where
  "space = Cls False whiteSpace"

definition dot :: regex where
  "dot = Cls True lineTerminators"

subsection \<open>Searching, matching and replacing\<close>

text \<open>
  The result of a successful search: the input before the match, the matched text, the
  input after it and the captured groups.
\<close>

type_synonym found = "jsstring \<times> jsstring \<times> jsstring \<times> captures"

text \<open>
  \<open>execFrom r b pre s\<close>: the leftmost match in \<open>s\<close>, where \<open>pre\<close> is the input already
  passed and \<open>b\<close> tells whether \<open>s\<close> is the whole input.
\<close>

fun execFrom :: "regex \<Rightarrow> bool \<Rightarrow> jsstring \<Rightarrow> jsstring \<Rightarrow> found option" where
  "execFrom r b pre [] =
     (case ms r (b, [], []) of
        (b', s', c) # _ \<Rightarrow> Some (pre, [], s', c)
      | [] \<Rightarrow> None)"
| "execFrom r b pre (x # xs) =
     (case ms r (b, x # xs, []) of
        (b', s', c) # _ \<Rightarrow> Some (pre, take (length (x # xs) - length s') (x # xs), s', c)
      | [] \<Rightarrow> execFrom r False (pre @ [x]) xs)"

text \<open>\<open>s.match(r)\<close> for a pattern without the \<open>g\<close> flag.\<close>

definition match :: "regex \<Rightarrow> jsstring \<Rightarrow> found option" where
  "match r s = execFrom r True [] s"

text \<open>
  Element \<open>n\<close> of a match array. A group that took no part in the match is \<open>undefined\<close>;
  the sources test such a group for truthiness only, so it is the empty string here.
\<close>

definition groupAt :: "found \<Rightarrow> nat \<Rightarrow> jsstring" where
  "groupAt m n =
     (case m of (pre, whole, post, caps) \<Rightarrow>
        if n = 0 then whole else (case map_of caps n of None \<Rightarrow> [] | Some g \<Rightarrow> g))"

text \<open>\<open>s.replace(r, rep)\<close> for a pattern without the \<open>g\<close> flag: the first match only.\<close>

definition replaceFirst :: "regex \<Rightarrow> jsstring \<Rightarrow> jsstring \<Rightarrow> jsstring" where
  "replaceFirst r rep s =
     (case match r s of None \<Rightarrow> s | Some (pre, whole, post, caps) \<Rightarrow> pre @ rep @ post)"

subsection \<open>Patterns with the \<open>g\<close> flag\<close>

text \<open>A match never ends before the place where it started.\<close>

lemma ms_length:
  "st' \<in> set (ms r st) \<Longrightarrow> length (fst (snd st')) \<le> length (fst (snd st))"
proof (induction r st arbitrary: st' rule: ms.induct)
  case (1 st)
  then show ?case by (simp add: ms.simps)
next
  case (2 neg rs b c)
  then show ?case by (simp add: ms.simps)
next
  case (3 neg rs b x xs c)
  then show ?case by (auto simp: ms.simps split: if_splits)
next
  case (4 r1 r2 st)
  from "4.prems" obtain mid where mid: "mid \<in> set (ms r1 st)" and st': "st' \<in> set (ms r2 mid)"
    by (auto simp: ms.simps)
  from "4.IH"(1) [OF mid] "4.IH"(2) [OF mid st'] show ?case by simp
next
  case (5 r1 r2 st)
  from "5.prems" "5.IH"(1) [of st'] "5.IH"(2) [of st'] show ?case
    by (auto simp: ms.simps)
next
  case (6 r b xs c)
  have "st' = (b, xs, c) \<or>
        (\<exists>b' xs' c'. (b', xs', c') \<in> set (ms r (b, xs, c)) \<and> length xs' < length xs \<and>
           st' \<in> set (ms (Star r) (b', xs', c')))"
    using "6.prems" by (subst (asm) ms.simps(6)) (auto split: if_splits)
  then show ?case
  proof
    assume "st' = (b, xs, c)"
    then show ?thesis by simp
  next
    assume "\<exists>b' xs' c'. (b', xs', c') \<in> set (ms r (b, xs, c)) \<and> length xs' < length xs \<and>
           st' \<in> set (ms (Star r) (b', xs', c'))"
    then obtain b' xs' c' where m: "(b', xs', c') \<in> set (ms r (b, xs, c))"
        and l: "length xs' < length xs" and s: "st' \<in> set (ms (Star r) (b', xs', c'))"
      by blast
    from "6.IH"(2) [OF m refl refl l s] l show ?thesis by simp
  qed
next
  case (7 r b xs c)
  have "st' = (b, xs, c) \<or>
        (\<exists>b' xs' c'. (b', xs', c') \<in> set (ms r (b, xs, c)) \<and> length xs' < length xs \<and>
           st' \<in> set (ms (LazyStar r) (b', xs', c')))"
    using "7.prems" by (subst (asm) ms.simps(7)) (auto split: if_splits)
  then show ?case
  proof
    assume "st' = (b, xs, c)"
    then show ?thesis by simp
  next
    assume "\<exists>b' xs' c'. (b', xs', c') \<in> set (ms r (b, xs, c)) \<and> length xs' < length xs \<and>
           st' \<in> set (ms (LazyStar r) (b', xs', c'))"
    then obtain b' xs' c' where m: "(b', xs', c') \<in> set (ms r (b, xs, c))"
        and l: "length xs' < length xs" and s: "st' \<in> set (ms (LazyStar r) (b', xs', c'))"
      by blast
    from "7.IH"(2) [OF m refl refl l s] l show ?thesis by simp
  qed
next
  case (8 n r b xs c)
  from "8.prems" obtain mid where "mid \<in> set (ms r (b, xs, c))"
      "fst (snd st') = fst (snd mid)"
    by (auto simp: ms.simps)
  with "8.IH" [of mid] show ?case by simp
next
  case (9 b xs c)
  then show ?case by (auto simp: ms.simps split: if_splits)
next
  case (10 b xs c)
  then show ?case by (auto simp: ms.simps split: if_splits)
next
  case (11 r st)
  then show ?case by (auto simp: ms.simps split: list.splits)
qed

lemma execFrom_length:
  "execFrom r b pre s = Some m \<Longrightarrow>
     length (fst (snd (snd m))) \<le> length s \<and>
     (fst (snd m) \<noteq> [] \<longrightarrow> length (fst (snd (snd m))) < length s)"
proof (induction s arbitrary: b pre)
  case Nil
  show ?case
  proof (cases "ms r (b, [], [])")
    case Nil
    with Nil.prems show ?thesis by simp
  next
    case (Cons st sts)
    obtain b' s' c where st: "st = (b', s', c)" by (cases st)
    have "length s' \<le> 0"
      using ms_length [of st r "(b, [], [])"] Cons st by simp
    with Cons st Nil.prems show ?thesis by auto
  qed
next
  case (Cons x xs)
  show ?case
  proof (cases "ms r (b, x # xs, [])")
    case Nil
    with Cons.prems have "execFrom r False (pre @ [x]) xs = Some m"
      by simp
    from Cons.IH [OF this] show ?thesis by auto
  next
    case (Cons st sts)
    obtain b' s' c where st: "st = (b', s', c)" by (cases st)
    have "length s' \<le> length (x # xs)"
      using ms_length [of st r "(b, x # xs, [])"] Cons st by simp
    with Cons st Cons.prems show ?thesis by auto
  qed
qed

text \<open>
  \<open>s.match(r)\<close> for a pattern with the \<open>g\<close> flag: the texts of all matches from left to
  right, each search starting where the match before it ended (one code unit further
  after an empty match). The method returns \<open>null\<close> where this list is empty.
\<close>

function matchAllFrom :: "regex \<Rightarrow> bool \<Rightarrow> jsstring \<Rightarrow> jsstring list" where
  "matchAllFrom r b s =
     (case execFrom r b [] s of
        None \<Rightarrow> []
      | Some (pre, whole, post, caps) \<Rightarrow>
          whole #
          (if whole \<noteq> [] then matchAllFrom r False post
           else (case post of [] \<Rightarrow> [] | x # xs \<Rightarrow> matchAllFrom r False xs)))"
  by pat_completeness auto
termination
proof (relation "measure (\<lambda>(r, b, s). length s)", goal_cases)
  case 1
  show ?case by simp
next
  case (2 r b s m pre y whole ya post caps)
  from execFrom_length [OF 2(1)] 2(2-5) show ?case by auto
next
  case (3 r b s m pre y whole ya post caps x xs)
  from execFrom_length [OF 3(1)] 3(2-6) show ?case by auto
qed

declare matchAllFrom.simps [simp del]

definition matchAll :: "regex \<Rightarrow> jsstring \<Rightarrow> jsstring list" where
  "matchAll r s = matchAllFrom r True s"

text \<open>\<open>s.replace(r, rep)\<close> for a pattern with the \<open>g\<close> flag: every match is replaced.\<close>

function replaceAllFrom :: "regex \<Rightarrow> jsstring \<Rightarrow> bool \<Rightarrow> jsstring \<Rightarrow> jsstring" where
  "replaceAllFrom r rep b s =
     (case execFrom r b [] s of
        None \<Rightarrow> s
      | Some (pre, whole, post, caps) \<Rightarrow>
          pre @ rep @
          (if whole \<noteq> [] then replaceAllFrom r rep False post
           else (case post of [] \<Rightarrow> [] | x # xs \<Rightarrow> x # replaceAllFrom r rep False xs)))"
  by pat_completeness auto
termination
proof (relation "measure (\<lambda>(r, rep, b, s). length s)", goal_cases)
  case 1
  show ?case by simp
next
  case (2 r rep b s m pre y whole ya post caps)
  from execFrom_length [OF 2(1)] 2(2-5) show ?case by auto
next
  case (3 r rep b s m pre y whole ya post caps x xs)
  from execFrom_length [OF 3(1)] 3(2-6) show ?case by auto
qed

declare replaceAllFrom.simps [simp del]

definition replaceAll :: "regex \<Rightarrow> jsstring \<Rightarrow> jsstring \<Rightarrow> jsstring" where
  "replaceAll r rep s = replaceAllFrom r rep True s"

section \<open>The tool extractor (commands/parse.ts)\<close>

subsection \<open>Slugs and categories\<close>

text \<open>
  \<open>text.toLowerCase().replace(/[^a-z0-9]+/g, "-").replace(/^-|-$/g, "")\<close>
\<close>

definition slugSeparators :: regex where
  "slugSeparators = Plus (Cls True [(97, 122), (48, 57)])"

definition slugEdges :: regex where
  "slugEdges = Alt (Seq Bol (lit ''-'')) (Seq (lit ''-'') Eol)"

definition slugify :: "jsstring \<Rightarrow> jsstring" where
  "slugify text =
     replaceAll slugEdges [] (replaceAll slugSeparators (str ''-'') (toLowerCase text))"

definition detectCategory :: "jsstring \<Rightarrow> jsstring \<Rightarrow> ToolCategory" where
  "detectCategory nm descr =
     (let text = toLowerCase (nm @ str '' '' @ descr)
      in if str_includes text (str ''plugin'') \<or> str_includes text (str ''claude code'')
         then ClaudePlugin
         else if str_includes text (str ''skill'') then ClaudeSkill
         else if str_includes text (str ''cli'') \<or> str_includes text (str ''command'') then CliTool
         else if str_includes text (str ''framework'') then Framework
         else if str_includes text (str ''npm'') \<or> str_includes text (str ''package'')
         then NpmPackage
         else Other)"

subsection \<open>Finalizing a tool\<close>

text \<open>
  \<open>Partial<Tool>\<close>: every field optional. The extractor never sets the description or
  the category of a partial tool and \<open>finalizeTool\<close> never reads them, so the record
  leaves them out.
\<close>

record PartialTool =
  pName :: "jsstring option"
  pSlug :: "jsstring option"
  pInstallCommand :: "jsstring option"
  pGithubUrl :: "jsstring option"
  pSource :: "jsstring option"
  pExtractedAt :: "jsstring option"

text \<open>
  \<open>now\<close> is what \<open>new Date().toISOString()\<close> returns at the time of the call; it is read
  only when the partial tool carries no time stamp.
\<close>

definition finalizeTool :: "jsstring \<Rightarrow> PartialTool \<Rightarrow> jsstring \<Rightarrow> Tool" where
  "finalizeTool now partial descr =
     \<lparr> name = orElse (pName partial) (str ''Unknown''),
       slug = orElse (pSlug partial) (slugify (orElse (pName partial) (str ''unknown''))),
       description = take 500 descr,
       installCommand = pInstallCommand partial,
       githubUrl = pGithubUrl partial,
       source = pSource partial,
       category = detectCategory (orElse (pName partial) []) descr,
       extractedAt = orElse (pExtractedAt partial) now \<rparr>"

subsection \<open>The patterns of \<open>extractTools\<close>\<close>

text \<open>
  \<open>/^###\s+(.+?)(?:\s*[-\u2013\u2014]\s*(.+))?$/\<close>; the source writes the en dash and the
  em dash themselves.
\<close>

definition h3Pattern :: regex where
  "h3Pattern =
     seqs [Bol, lit ''###'', Plus space, Grp 1 (LazyPlus dot),
           Opt (seqs [Star space, Cls False [(45, 45), (8211, 8212)], Star space, Grp 2 (Plus dot)]),
           Eol]"

text \<open>
  \<open>/^[\s\u2022\-\*]+\*\*([^*]+)\*\*[:\s]+(.+)/\<close>; the source writes the bullet U+2022
  itself, here and in the patterns of the news.
\<close>

definition bulletPattern :: regex where
  "bulletPattern =
     seqs [Bol, Plus (Cls False (whiteSpace @ [(8226, 8226), (45, 45), (42, 42)])),
           lit ''**'', Grp 1 (Plus (Cls True [(42, 42)])), lit ''**'',
           Plus (Cls False ((58, 58) # whiteSpace)), Grp 2 (Plus dot)]"

definition metadataFields :: "jsstring list" where
  "metadataFields =
     [str ''installation'', str ''github'', str ''application'', str ''source'',
      str ''npm'', str ''usage'', str ''docs'', str ''license'']"

text \<open>\<open>/\*\*Installation:\*\*\s*`?([^`\n]+)`?/i\<close>\<close>

definition installPattern :: regex where
  "installPattern =
     seqs [litI ''**Installation:**'', Star space, Opt (cunit 96),
           Grp 1 (Plus (Cls True [(96, 96), (10, 10)])), Opt (cunit 96)]"

text \<open>\<open>/\*\*GitHub:\*\*\s*(https?:\/\/[^\s\n]+)/i\<close>\<close>

definition githubPattern :: regex where
  "githubPattern =
     seqs [litI ''**GitHub:**'', Star space,
           Grp 1 (seqs [litI ''http'', Opt (cunitI 115), litI ''://'',
                        Plus (Cls True (whiteSpace @ [(10, 10)]))])]"

text \<open>\<open>/\*\*Application:\*\*\s*([^\n]+)/i\<close>\<close>

definition applicationPattern :: regex where
  "applicationPattern =
     seqs [litI ''**Application:**'', Star space, Grp 1 (Plus (Cls True [(10, 10)]))]"

text \<open>\<open>/\*\*Source:\*\*\s*(@[\w_]+)/i\<close>\<close>

definition sourcePattern :: regex where
  "sourcePattern =
     seqs [litI ''**Source:**'', Star space,
           Grp 1 (Seq (cunit 64) (Plus (Cls False [(48, 57), (65, 90), (95, 95), (97, 122)])))]"

subsection \<open>The scan\<close>

text \<open>The variables that the loop of \<open>extractTools\<close> and its closure \<open>saveTool\<close> share.\<close>

record ExtractState =
  tools :: "Tool list"
  currentTool :: "PartialTool option"
  currentDescription :: "jsstring list"
  currentBlock :: "jsstring list"

definition initialState :: ExtractState where
  "initialState = \<lparr> tools = [], currentTool = None, currentDescription = [], currentBlock = [] \<rparr>"

definition saveTool :: "jsstring \<Rightarrow> ExtractState \<Rightarrow> ExtractState" where
  "saveTool now st =
     (case currentTool st of
        None \<Rightarrow> st
      | Some ct \<Rightarrow>
          if truthy (pName ct) then
            (let blockText = join (str ''\<newline>'') (currentBlock st);
                 ct = (case match installPattern blockText of
                         None \<Rightarrow> ct
                       | Some installMatch \<Rightarrow> ct \<lparr> pInstallCommand := Some (trim (groupAt installMatch 1)) \<rparr>);
                 ct = (case match githubPattern blockText of
                         None \<Rightarrow> ct
                       | Some githubMatch \<Rightarrow> ct \<lparr> pGithubUrl := Some (trim (groupAt githubMatch 1)) \<rparr>);
                 descr = (case match applicationPattern blockText of
                            None \<Rightarrow> currentDescription st
                          | Some appMatch \<Rightarrow>
                              if currentDescription st = []
                              then currentDescription st @ [trim (groupAt appMatch 1)]
                              else currentDescription st);
                 ct = (case match sourcePattern blockText of
                         None \<Rightarrow> ct
                       | Some sourceMatch \<Rightarrow> ct \<lparr> pSource := Some (trim (groupAt sourceMatch 1)) \<rparr>)
             in st \<lparr> tools := tools st @ [finalizeTool now ct (join (str '' '') descr)],
                     currentTool := Some ct,
                     currentDescription := descr \<rparr>)
          else st)"

text \<open>The object literal that starts a new current tool.\<close>

definition newTool :: "jsstring \<Rightarrow> jsstring \<Rightarrow> PartialTool" where
  "newTool now nm =
     \<lparr> pName = Some nm, pSlug = Some (slugify nm), pInstallCommand = None, pGithubUrl = None,
       pSource = None, pExtractedAt = Some now \<rparr>"

text \<open>The end of the loop body: a line that is no boundary is collected.\<close>

definition collectLine :: "ExtractState \<Rightarrow> jsstring \<Rightarrow> jsstring \<Rightarrow> ExtractState" where
  "collectLine st line trimmed =
     (case currentTool st of
        None \<Rightarrow> st
      | Some ct \<Rightarrow>
          (let st = st \<lparr> currentBlock := currentBlock st @ [line] \<rparr>
           in if length trimmed > 0 \<and> \<not> startsWith trimmed (str ''-'') \<and>
                 \<not> startsWith trimmed (str ''*'') \<and> \<not> startsWith trimmed (str ''#'') \<and>
                 length (currentDescription st) = 0
              then st \<lparr> currentDescription := currentDescription st @ [trimmed] \<rparr>
              else st))"

text \<open>
  One round of the loop. \<open>now\<close> is the reading of the clock during the round.
\<close>

definition processLine :: "jsstring \<Rightarrow> ExtractState \<Rightarrow> jsstring \<Rightarrow> ExtractState" where
  "processLine now st line =
     (let trimmed = trim line
      in case match h3Pattern trimmed of
           Some h3Match \<Rightarrow>
             (let st = saveTool now st
              in st \<lparr> currentTool := Some (newTool now (trim (groupAt h3Match 1))),
                      currentDescription :=
                        (if groupAt h3Match 2 \<noteq> [] then [trim (groupAt h3Match 2)] else []),
                      currentBlock := [] \<rparr>)
         | None \<Rightarrow>
             (case match bulletPattern trimmed of
                Some bulletMatch \<Rightarrow>
                  (let fieldName = toLowerCase (trim (groupAt bulletMatch 1))
                   in if replaceUnit 58 [] fieldName \<notin> set metadataFields
                      then (let st = saveTool now st
                            in st \<lparr> currentTool := Some (newTool now (trim (groupAt bulletMatch 1))),
                                    currentDescription := [trim (groupAt bulletMatch 2)],
                                    currentBlock := [] \<rparr>)
                      else collectLine st line trimmed)
              | None \<Rightarrow> collectLine st line trimmed))"

text \<open>
  The loop over the lines. \<open>clock i\<close> is what \<open>new Date().toISOString()\<close> returns while
  line \<open>i\<close> is processed, and \<open>clock (length lines)\<close> what it returns after the loop.
\<close>

fun extractLoop :: "(nat \<Rightarrow> jsstring) \<Rightarrow> nat \<Rightarrow> jsstring list \<Rightarrow> ExtractState \<Rightarrow> ExtractState" where
  "extractLoop clock i [] st = st"
| "extractLoop clock i (line # rest) st =
     extractLoop clock (Suc i) rest (processLine (clock i) st line)"

definition extractTools :: "(nat \<Rightarrow> jsstring) \<Rightarrow> jsstring \<Rightarrow> Tool list" where
  "extractTools clock content =
     (let lines = splitOn 10 content;
          st = extractLoop clock 0 lines initialState
      in tools (saveTool (clock (length lines)) st))"

subsection \<open>News\<close>







section \<open>Concrete inputs\<close>

definition exTool :: Tool where
  "exTool = \<lparr> name = str ''Foo'', slug = str ''foo'', description = str ''A Claude Code plugin'',
              installCommand = Some (str ''npm i foo''), githubUrl = None, source = None,
              category = ClaudePlugin, extractedAt = str ''2026-01-01T00:00:00.000Z'' \<rparr>"

definition exGitHub :: GitHubData where
  "exGitHub = \<lparr> repoUrl = str ''https://github.com/x/foo'', stars = 1500, forks = 3, openIssues = 1,
                lastCommitDate = str ''2026-01-01T00:00:00.000Z'',
                createdAt = str ''2025-01-01T00:00:00.000Z'', language = str ''TypeScript'',
                license = None, hasTests = True, hasCI = True, readme = None \<rparr>"

text \<open>
  A runtime \<open>days\<close> days after the commit date of the examples. Of the Unicode tables it
  knows U+0130 (to "i" and U+0307) and the Kelvin sign U+212A (to "k"); its exponent form is
  the one of ten to the power 21, and no number of the examples is that large.
\<close>

definition exLowerOther :: "jsstring \<Rightarrow> nat \<Rightarrow> jsstring \<Rightarrow> jsstring" where
  "exLowerOther before c after = (if c = 304 then [105, 775] else if c = 8490 then [107] else [c])"

definition exRuntime :: "int \<Rightarrow> Runtime" where
  "exRuntime days =
     \<lparr> getTime = (\<lambda>s. if s = str ''2026-01-01T00:00:00.000Z'' then Some 1767225600000 else None),
       nowCommit = 1767225600000 + days * 86400000,
       nowPublish = 1767225600000 + days * 86400000,
       nowISO = str ''2026-02-01T00:00:00.000Z'',
       lowerOther = exLowerOther,
       exponentForm = (\<lambda>i. str ''1e+21'') \<rparr>"

definition exResearch70 :: ToolResearch where
  "exResearch70 = \<lparr> tool = exTool, github = Some exGitHub, npm = None, webSources = [],
                    researchedAt = str ''2026-01-02T00:00:00.000Z'' \<rparr>"

definition exResearch69 :: ToolResearch where
  "exResearch69 = \<lparr> tool = exTool, github = Some (exGitHub \<lparr> hasTests := False \<rparr>), npm = None,
                    webSources = [], researchedAt = str ''2026-01-02T00:00:00.000Z'' \<rparr>"

definition exPlugin :: ToolResearch where
  "exPlugin = \<lparr> tool = exTool, github = None, npm = None, webSources = [],
                researchedAt = str ''2026-01-02T00:00:00.000Z'' \<rparr>"

definition exPluginAi :: ToolResearch where
  "exPluginAi = \<lparr> tool = exTool \<lparr> name := str ''Aider'' \<rparr>, github = None, npm = None,
                  webSources = [], researchedAt = str ''2026-01-02T00:00:00.000Z'' \<rparr>"

text \<open>A plugin named "A" followed by U+0130, and one described as novel whose name has "ai".\<close>

definition exPluginDotted :: ToolResearch where
  "exPluginDotted = \<lparr> tool = exTool \<lparr> name := [65, 304] \<rparr>, github = None, npm = None,
                      webSources = [], researchedAt = str ''2026-01-02T00:00:00.000Z'' \<rparr>"

definition exPluginNovelAi :: ToolResearch where
  "exPluginNovelAi =
     \<lparr> tool = exTool \<lparr> name := str ''Aider'', description := str ''A novel Claude Code plugin'' \<rparr>,
       github = None, npm = None, webSources = [],
       researchedAt = str ''2026-01-02T00:00:00.000Z'' \<rparr>"

definition exPluginEmptyInstall :: ToolResearch where
  "exPluginEmptyInstall = \<lparr> tool = exTool \<lparr> installCommand := Some [] \<rparr>, github = None, npm = None,
                            webSources = [], researchedAt = str ''2026-01-02T00:00:00.000Z'' \<rparr>"

text \<open>
  The digest of one tool, "Aider", in the heading convention: a heading, a line of
  description, an installation line and a GitHub line.
\<close>

definition aiderText :: jsstring where
  "aiderText = str ''### Aider\<newline>An AI pair programming CLI.\<newline>**Installation:** `pip install aider`\<newline>**GitHub:** https://github.com/paul-gauthier/aider''"

text \<open>A reading of the clock, a metadata bullet, and the state after the heading "Foo".\<close>

definition exNow :: jsstring where
  "exNow = str ''2026-01-01T00:00:00.000Z''"

definition exGithubLine :: jsstring where
  "exGithubLine = str ''- **GitHub:** https://github.com/x/y''"

definition exActive :: ExtractState where
  "exActive = processLine exNow initialState (str ''### Foo'')"

text \<open>Two runs five seconds apart.\<close>

definition exClockA :: "nat \<Rightarrow> jsstring" where
  "exClockA i = str ''2026-01-01T09:00:00.000Z''"

definition exClockB :: "nat \<Rightarrow> jsstring" where
  "exClockB i = str ''2026-01-01T09:00:05.000Z''"


section \<open>Auxiliary notions for the proofs\<close>

text \<open>Membership in a class, as the matcher tests it.\<close>

definition inClass :: "bool \<Rightarrow> (nat \<times> nat) list \<Rightarrow> nat \<Rightarrow> bool" where
  "inClass neg rs x = (in_ranges rs x \<noteq> neg)"

text \<open>
  The two replacements of \<open>slugify\<close> as plain recursions: \<open>collapse\<close> turns every run of
  code units outside a-z and 0-9 into one hyphen, \<open>strip\<close> drops a hyphen at the start
  (when its flag says that the start has not been passed) and a hyphen at the end.
\<close>

definition notAlnum :: "nat \<Rightarrow> bool" where
  "notAlnum c = inClass True [(97, 122), (48, 57)] c"

function collapse :: "jsstring \<Rightarrow> jsstring" where
  "collapse [] = []"
| "collapse (x # xs) =
     (if notAlnum x then 45 # collapse (dropWhile notAlnum xs) else x # collapse xs)"
  by pat_completeness auto
termination
  by (relation "measure length") (auto simp: less_Suc_eq_le length_dropWhile_le)

fun strip :: "bool \<Rightarrow> jsstring \<Rightarrow> jsstring" where
  "strip b [] = []"
| "strip b (x # xs) = (if x = 45 \<and> (b \<or> xs = []) then strip False xs else x # strip False xs)"

text \<open>The shape of a slug: lower-case letters, digits and single hyphens.\<close>

fun dashed :: "jsstring \<Rightarrow> bool" where
  "dashed [] = True"
| "dashed [x] = (\<not> notAlnum x \<or> x = 45)"
| "dashed (x # y # ys) = ((\<not> notAlnum x \<or> (x = 45 \<and> y \<noteq> 45)) \<and> dashed (y # ys))"

text \<open>The code units with which a line matched by the bullet pattern can start.\<close>

definition bulletMarkers :: "(nat \<times> nat) list" where
  "bulletMarkers = whiteSpace @ [(8226, 8226), (45, 45), (42, 42)]"

text \<open>
  Erasing the time stamps: of a tool, of the current partial tool, of a state of the scan.
\<close>

definition eraseTime :: "Tool \<Rightarrow> Tool" where
  "eraseTime t = t \<lparr> extractedAt := [] \<rparr>"

definition erasePartial :: "PartialTool \<Rightarrow> PartialTool" where
  "erasePartial p = p \<lparr> pExtractedAt := None \<rparr>"

definition eraseState :: "ExtractState \<Rightarrow> ExtractState" where
  "eraseState st =
     st \<lparr> tools := map eraseTime (tools st),
          currentTool := map_option erasePartial (currentTool st) \<rparr>"

section \<open>Properties of the scoring engine\<close>

subsection \<open>The four sub-scorers\<close>

lemma usefulness_bounds:
  "50 \<le> fst (calculateUsefulnessScore rt r ns) \<and> fst (calculateUsefulnessScore rt r ns) \<le> 90"
  by (simp add: calculateUsefulnessScore_def Let_def)

lemma githubQuality_bounds:
  "fst sn \<le> fst (githubQuality rt g sn) \<and> fst (githubQuality rt g sn) \<le> fst sn + 45"
  by (simp add: githubQuality_def Let_def split: prod.splits)

lemma npmQuality_bounds:
  "fst sn \<le> fst (npmQuality n sn) \<and> fst (npmQuality n sn) \<le> fst sn + 15"
  by (simp add: npmQuality_def Let_def split: prod.splits)

lemma quality_bounds:
  "30 \<le> fst (calculateQualityScore rt r ns) \<and> fst (calculateQualityScore rt r ns) \<le> 90"
proof -
  define s1 where "s1 = (case github r of None \<Rightarrow> (30, ns) | Some g \<Rightarrow> githubQuality rt g (30, ns))"
  define s2 where "s2 = (case npm r of None \<Rightarrow> s1 | Some n \<Rightarrow> npmQuality n s1)"
  have b1: "30 \<le> fst s1 \<and> fst s1 \<le> 75"
    using githubQuality_bounds [of "(30, ns)" rt] by (auto simp: s1_def split: option.splits)
  have b2: "fst s1 \<le> fst s2 \<and> fst s2 \<le> fst s1 + 15"
    using npmQuality_bounds [of s1] by (auto simp: s2_def split: option.splits)
  have "fst (calculateQualityScore rt r ns) = min 100 (max 0 (fst s2))"
    unfolding s1_def s2_def calculateQualityScore_def by (simp add: Let_def split_beta)
  with b1 b2 show ?thesis by simp
qed

lemma innovativeLoop_fst:
  "fst (innovativeLoop low terms sn) = fst sn + (if list_ex (str_includes low) terms then 15 else 0)"
  by (induction terms) auto

lemma innovation_fst:
  "fst (calculateInnovationScore rt r ns) =
     50 + (if list_ex (str_includes (innovationText rt r)) innovativeTerms then 15 else 0)
        + (if str_includes (innovationText rt r) (str ''ai'') \<or>
              str_includes (innovationText rt r) (str ''llm'') \<or>
              str_includes (innovationText rt r) (str ''agent'') then 10 else 0)"
  unfolding calculateInnovationScore_def
  by (simp add: Let_def split_beta innovativeLoop_fst)

lemma innovation_bounds:
  "50 \<le> fst (calculateInnovationScore rt r ns) \<and> fst (calculateInnovationScore rt r ns) \<le> 75"
  unfolding innovation_fst by simp

lemma githubMomentum_bounds:
  "fst sn \<le> fst (githubMomentum rt g sn) \<and> fst (githubMomentum rt g sn) \<le> fst sn + 30"
  by (simp add: githubMomentum_def Let_def split: prod.splits)

lemma npmMomentum_bounds:
  "fst sn \<le> fst (npmMomentum rt n sn) \<and> fst (npmMomentum rt n sn) \<le> fst sn + 15"
  by (simp add: npmMomentum_def Let_def split: prod.splits)

lemma momentum_bounds:
  "40 \<le> fst (calculateMomentumScore rt r ns) \<and> fst (calculateMomentumScore rt r ns) \<le> 85"
proof -
  define s1 where "s1 = (case github r of None \<Rightarrow> (40, ns) | Some g \<Rightarrow> githubMomentum rt g (40, ns))"
  define s2 where "s2 = (case npm r of None \<Rightarrow> s1 | Some n \<Rightarrow> npmMomentum rt n s1)"
  have b1: "40 \<le> fst s1 \<and> fst s1 \<le> 70"
    using githubMomentum_bounds [of "(40, ns)"] by (auto simp: s1_def split: option.splits)
  have b2: "fst s1 \<le> fst s2 \<and> fst s2 \<le> fst s1 + 15"
    using npmMomentum_bounds [of s1] by (auto simp: s2_def split: option.splits)
  have "fst (calculateMomentumScore rt r ns) = min 100 (max 0 (fst s2))"
    unfolding s1_def s2_def calculateMomentumScore_def by (simp add: Let_def split_beta)
  with b1 b2 show ?thesis by simp
qed

subsection \<open>The weighted total\<close>

text \<open>With the weights of \<open>config\<close> the rounded sum is an integer division.\<close>

lemma weightedTotal_config:
  "weightedTotal config u q i m = (3 * u + 3 * q + 2 * i + 2 * m + 5) div 10"
proof -
  have "real_of_int u * 0.3 + real_of_int q * 0.3 + real_of_int i * 0.2 + real_of_int m * 0.2 + 1 / 2
      = real_of_int (3 * u + 3 * q + 2 * i + 2 * m + 5) / real_of_int 10"
    by simp
  then have "\<lfloor>real_of_int u * 0.3 + real_of_int q * 0.3 + real_of_int i * 0.2 + real_of_int m * 0.2 + 1 / 2\<rfloor>
      = (3 * u + 3 * q + 2 * i + 2 * m + 5) div 10"
    by (simp only: floor_divide_of_int_eq)
  then show ?thesis
    by (simp add: weightedTotal_def Math_round_def config_def)
qed

lemma scoreTool_fields:
  "usefulnessScore (scoreTool rt r) = fst (calculateUsefulnessScore rt r [])"
  "qualityScore (scoreTool rt r) =
     fst (calculateQualityScore rt r (snd (calculateUsefulnessScore rt r [])))"
  "innovationScore (scoreTool rt r) =
     fst (calculateInnovationScore rt r
       (snd (calculateQualityScore rt r (snd (calculateUsefulnessScore rt r [])))))"
  "momentumScore (scoreTool rt r) =
     fst (calculateMomentumScore rt r
       (snd (calculateInnovationScore rt r
         (snd (calculateQualityScore rt r (snd (calculateUsefulnessScore rt r [])))))))"
  "totalScore (scoreTool rt r) =
     (3 * usefulnessScore (scoreTool rt r) + 3 * qualityScore (scoreTool rt r) +
      2 * innovationScore (scoreTool rt r) + 2 * momentumScore (scoreTool rt r) + 5) div 10"
  "recommendation (scoreTool rt r) = recommend config (totalScore (scoreTool rt r))"
  by (simp_all add: scoreTool_def Let_def split_beta weightedTotal_config)

lemma scoreTool_all_bounds:
  "50 \<le> usefulnessScore (scoreTool rt r) \<and> usefulnessScore (scoreTool rt r) \<le> 90 \<and>
   30 \<le> qualityScore (scoreTool rt r) \<and> qualityScore (scoreTool rt r) \<le> 90 \<and>
   50 \<le> innovationScore (scoreTool rt r) \<and> innovationScore (scoreTool rt r) \<le> 75 \<and>
   40 \<le> momentumScore (scoreTool rt r) \<and> momentumScore (scoreTool rt r) \<le> 85"
  unfolding scoreTool_fields(1-4)
  using usefulness_bounds quality_bounds innovation_bounds momentum_bounds by simp

lemma scoreTool_total_bounds:
  "42 \<le> totalScore (scoreTool rt r) \<and> totalScore (scoreTool rt r) \<le> 86"
proof -
  have t: "totalScore (scoreTool rt r) =
     (3 * usefulnessScore (scoreTool rt r) + 3 * qualityScore (scoreTool rt r) +
      2 * innovationScore (scoreTool rt r) + 2 * momentumScore (scoreTool rt r) + 5) div 10"
    by (rule scoreTool_fields)
  show ?thesis
    unfolding t using scoreTool_all_bounds [of rt r] by linarith
qed

lemmas scoring_defs = scoreTool_def usefulnessText_def innovationText_def
  calculateUsefulnessScore_def calculateQualityScore_def
  calculateInnovationScore_def calculateMomentumScore_def githubQuality_def npmQuality_def
  githubMomentum_def npmMomentum_def daysSince_def innovativeTerms_def weightedTotal_config

lemmas example_defs = exTool_def exGitHub_def exRuntime_def exLowerOther_def exResearch70_def
  exResearch69_def exPlugin_def exPluginAi_def exPluginEmptyInstall_def exPluginDotted_def
  exPluginNovelAi_def

lemmas string_defs = str_def toLowerCase_def runtimeLowerCase_def lowerUnit_def

lemma exResearch70_total: "totalScore (scoreTool (exRuntime 10) exResearch70) = 70"
  by (simp add: scoring_defs example_defs string_defs Let_def)

lemma exResearch69_total: "totalScore (scoreTool (exRuntime 1) exResearch69) = 69"
  by (simp add: scoring_defs example_defs string_defs Let_def)

subsection \<open>Claims about scoring\<close>

text \<open>
  C1. For every research record and every state of the runtime, the usefulness, quality,
  innovation and momentum scores and the total score that \<open>scoreTool\<close> returns are
  integers between 0 and 100.
\<close>

theorem scoreTool_scores_in_range:
  "0 \<le> usefulnessScore (scoreTool rt r) \<and> usefulnessScore (scoreTool rt r) \<le> 100 \<and>
   0 \<le> qualityScore (scoreTool rt r) \<and> qualityScore (scoreTool rt r) \<le> 100 \<and>
   0 \<le> innovationScore (scoreTool rt r) \<and> innovationScore (scoreTool rt r) \<le> 100 \<and>
   0 \<le> momentumScore (scoreTool rt r) \<and> momentumScore (scoreTool rt r) \<le> 100 \<and>
   0 \<le> totalScore (scoreTool rt r) \<and> totalScore (scoreTool rt r) \<le> 100"
  using scoreTool_all_bounds [of rt r] scoreTool_total_bounds [of rt r] by linarith

text \<open>
  C2. The recommendation of \<open>scoreTool\<close> is BUILD exactly when the total is at least 70,
  WATCH exactly when it lies between 40 and 69, and SKIP exactly when it is at most 39;
  the threshold chain sends 70 to BUILD, 69 and 40 to WATCH and 39 to SKIP.
\<close>

theorem scoreTool_recommendation_bands:
  "(recommendation (scoreTool rt r) = BUILD \<longleftrightarrow> totalScore (scoreTool rt r) \<ge> 70) \<and>
   (recommendation (scoreTool rt r) = WATCH \<longleftrightarrow>
      40 \<le> totalScore (scoreTool rt r) \<and> totalScore (scoreTool rt r) \<le> 69) \<and>
   (recommendation (scoreTool rt r) = SKIP \<longleftrightarrow> totalScore (scoreTool rt r) \<le> 39) \<and>
   recommend config 70 = BUILD \<and> recommend config 69 = WATCH \<and>
   recommend config 40 = WATCH \<and> recommend config 39 = SKIP"
  unfolding scoreTool_fields(6) by (simp add: recommend_def config_def)

text \<open>
  Two research records on either side of the BUILD threshold: the first totals 70 and is
  recommended BUILD, the second totals 69 and is recommended WATCH.
\<close>

theorem scoreTool_recommendation_bands_witness:
  "totalScore (scoreTool (exRuntime 10) exResearch70) = 70 \<and>
   recommendation (scoreTool (exRuntime 10) exResearch70) = BUILD \<and>
   totalScore (scoreTool (exRuntime 1) exResearch69) = 69 \<and>
   recommendation (scoreTool (exRuntime 1) exResearch69) = WATCH"
  using scoreTool_recommendation_bands [of "exRuntime 10" exResearch70]
    scoreTool_recommendation_bands [of "exRuntime 1" exResearch69]
    exResearch70_total exResearch69_total
  by simp

text \<open>
  C9. Every dimension score is at least its base value (50, 30, 50 and 40), so the total
  is at least 42 and \<open>scoreTool\<close> never recommends SKIP.
\<close>

theorem scoreTool_at_least_base:
  "usefulnessScore (scoreTool rt r) \<ge> 50 \<and> qualityScore (scoreTool rt r) \<ge> 30 \<and>
   innovationScore (scoreTool rt r) \<ge> 50 \<and> momentumScore (scoreTool rt r) \<ge> 40 \<and>
   totalScore (scoreTool rt r) \<ge> 42 \<and> recommendation (scoreTool rt r) \<noteq> SKIP"
proof -
  have ge: "totalScore (scoreTool rt r) \<ge> 42"
    using scoreTool_total_bounds [of rt r] by simp
  then have "recommendation (scoreTool rt r) \<noteq> SKIP"
    unfolding scoreTool_fields(6) by (simp add: recommend_def config_def)
  with ge show ?thesis
    using scoreTool_all_bounds [of rt r] by simp
qed

subsection \<open>Lower-casing in the scorer\<close>

text \<open>
  On ASCII text \<open>lowerScan\<close> is the map of A-Z to a-z, whatever the tables of the runtime;
  and what it makes of the end of a text is a suffix of what it makes of the whole text.
\<close>

lemma lowerScan_ascii:
  "\<forall>c \<in> set s. c < 128 \<Longrightarrow> lowerScan other before s = map lowerUnit s"
  by (induction s arbitrary: before) simp_all

lemma lowerScan_append:
  "\<exists>u. lowerScan other before (s @ t) = u @ lowerScan other (before @ s) t"
proof (induction s arbitrary: before)
  case Nil
  show ?case by simp
next
  case (Cons c s)
  from Cons [of "before @ [c]"] obtain u
    where "lowerScan other (before @ [c]) (s @ t) = u @ lowerScan other (before @ c # s) t"
    by auto
  then show ?case by simp
qed

lemma runtimeLowerCase_ascii:
  "\<forall>c \<in> set s. c < 128 \<Longrightarrow> runtimeLowerCase rt s = toLowerCase s"
  by (simp add: runtimeLowerCase_def toLowerCase_def lowerScan_ascii)

lemma runtimeLowerCase_ascii_suffix:
  assumes "\<forall>c \<in> set t. c < 128"
  shows "\<exists>u. runtimeLowerCase rt (s @ t) = u @ toLowerCase t"
  using lowerScan_append [of "lowerOther rt" "[]" s t] lowerScan_ascii [OF assms]
  by (simp add: runtimeLowerCase_def toLowerCase_def)

subsection \<open>A plugin without enrichment data\<close>

lemma str_includes_append_right: "str_includes ys p \<Longrightarrow> str_includes (xs @ ys) p"
  by (induction xs) auto

text \<open>The category text "claude-plugin" is the end of the text that usefulness looks at.\<close>

lemma plugin_text_claude:
  assumes "category t = ClaudePlugin"
  shows "str_includes (usefulnessText rt t) (str ''claude'')"
proof -
  have "\<forall>c \<in> set (str ''claude-plugin''). c < 128"
    by (simp add: str_def)
  from runtimeLowerCase_ascii_suffix [OF this, of rt "name t @ str '' '' @ description t @ str '' ''"]
  obtain u where "usefulnessText rt t = u @ toLowerCase (str ''claude-plugin'')"
    using assms by (auto simp: usefulnessText_def)
  moreover have "str_includes (toLowerCase (str ''claude-plugin'')) (str ''claude'')"
    by (simp add: str_def toLowerCase_def lowerUnit_def)
  ultimately show ?thesis
    by (simp only: str_includes_append_right)
qed

text \<open>
  C5, as the code has it, at two records that have no GitHub and no npm data, a description
  containing "Claude Code plugin", an \<open>installCommand\<close> that is present and the category
  \<open>claude-plugin\<close>. The install bonus is given for a truthy \<open>installCommand\<close>, and the
  empty string is falsy: the record whose \<open>installCommand\<close> is present but empty scores 85
  for usefulness. The bonus for an innovative term comes on top of the one for "ai": the
  record named "Aider" and described as "A novel Claude Code plugin", where "ai" appears,
  scores 75 for innovation and not 60.
\<close>

theorem plugin_without_enrichment_counterexample:
  "github exPluginEmptyInstall = None \<and> npm exPluginEmptyInstall = None \<and>
   str_includes (description (tool exPluginEmptyInstall)) (str ''Claude Code plugin'') \<and>
   installCommand (tool exPluginEmptyInstall) = Some [] \<and>
   category (tool exPluginEmptyInstall) = ClaudePlugin \<and>
   usefulnessScore (scoreTool (exRuntime 1) exPluginEmptyInstall) = 85 \<and>
   github exPluginNovelAi = None \<and> npm exPluginNovelAi = None \<and>
   str_includes (description (tool exPluginNovelAi)) (str ''Claude Code plugin'') \<and>
   installCommand (tool exPluginNovelAi) = Some (str ''npm i foo'') \<and>
   category (tool exPluginNovelAi) = ClaudePlugin \<and>
   str_includes (innovationText (exRuntime 1) exPluginNovelAi) (str ''ai'') \<and>
   innovationScore (scoreTool (exRuntime 1) exPluginNovelAi) = 75"
  by (simp add: scoring_defs example_defs string_defs Let_def)

text \<open>
  C5, amended. For a research record with no GitHub and no npm data whose tool has a
  description containing "Claude Code plugin", a non-empty \<open>installCommand\<close> and the
  category \<open>claude-plugin\<close>, and for every runtime: usefulness is 90, quality 30 and
  momentum 40; with no innovative term in the text that the code searches (the name, a
  space and the description, lower-cased by the runtime), innovation is 50 when none of
  "ai", "llm", "agent" occurs in that text and 60 when "ai" does. For any record \<open>r'\<close>,
  taking the GitHub and npm data away leaves usefulness and innovation as they are and puts
  quality and momentum at their bases 30 and 40, which they never fall below.
\<close>

theorem plugin_without_enrichment:
  assumes "github r = None" and "npm r = None"
    and "str_includes (description (tool r)) (str ''Claude Code plugin'')"
    and "installCommand (tool r) = Some cmd" and "cmd \<noteq> []"
    and "category (tool r) = ClaudePlugin"
  shows "usefulnessScore (scoreTool rt r) = 90 \<and>
         qualityScore (scoreTool rt r) = 30 \<and>
         momentumScore (scoreTool rt r) = 40 \<and>
         (\<not> list_ex (str_includes (innovationText rt r)) innovativeTerms \<and>
          \<not> str_includes (innovationText rt r) (str ''ai'') \<and>
          \<not> str_includes (innovationText rt r) (str ''llm'') \<and>
          \<not> str_includes (innovationText rt r) (str ''agent'')
            \<longrightarrow> innovationScore (scoreTool rt r) = 50) \<and>
         (\<not> list_ex (str_includes (innovationText rt r)) innovativeTerms \<and>
          str_includes (innovationText rt r) (str ''ai'')
            \<longrightarrow> innovationScore (scoreTool rt r) = 60) \<and>
         usefulnessScore (scoreTool rt (r' \<lparr> github := None, npm := None \<rparr>))
           = usefulnessScore (scoreTool rt r') \<and>
         innovationScore (scoreTool rt (r' \<lparr> github := None, npm := None \<rparr>))
           = innovationScore (scoreTool rt r') \<and>
         qualityScore (scoreTool rt (r' \<lparr> github := None, npm := None \<rparr>)) = 30 \<and>
         qualityScore (scoreTool rt r') \<ge> 30 \<and>
         momentumScore (scoreTool rt (r' \<lparr> github := None, npm := None \<rparr>)) = 40 \<and>
         momentumScore (scoreTool rt r') \<ge> 40"
proof -
  have u: "usefulnessScore (scoreTool rt r) = 90"
    unfolding scoreTool_fields(1) calculateUsefulnessScore_def
    using assms plugin_text_claude [of "tool r" rt] by (simp add: Let_def)
  have q: "qualityScore (scoreTool rt x) = 30" if "github x = None" "npm x = None" for x
    unfolding scoreTool_fields(2) calculateQualityScore_def using that by (simp add: Let_def)
  have m: "momentumScore (scoreTool rt x) = 40" if "github x = None" "npm x = None" for x
    unfolding scoreTool_fields(4) calculateMomentumScore_def using that by (simp add: Let_def)
  have i50: "innovationScore (scoreTool rt r) = 50"
    if "\<not> list_ex (str_includes (innovationText rt r)) innovativeTerms"
       "\<not> str_includes (innovationText rt r) (str ''ai'')"
       "\<not> str_includes (innovationText rt r) (str ''llm'')"
       "\<not> str_includes (innovationText rt r) (str ''agent'')"
    unfolding scoreTool_fields(3) innovation_fst using that by simp
  have i60: "innovationScore (scoreTool rt r) = 60"
    if "\<not> list_ex (str_includes (innovationText rt r)) innovativeTerms"
       "str_includes (innovationText rt r) (str ''ai'')"
    unfolding scoreTool_fields(3) innovation_fst using that by simp
  have same_u: "usefulnessScore (scoreTool rt (r' \<lparr> github := None, npm := None \<rparr>))
           = usefulnessScore (scoreTool rt r')"
    unfolding scoreTool_fields(1) calculateUsefulnessScore_def by simp
  have same_i: "innovationScore (scoreTool rt (r' \<lparr> github := None, npm := None \<rparr>))
           = innovationScore (scoreTool rt r')"
    unfolding scoreTool_fields(3) innovation_fst by (simp add: innovationText_def)
  have ge_q: "qualityScore (scoreTool rt r') \<ge> 30"
    using scoreTool_all_bounds [of rt r'] by simp
  have ge_m: "momentumScore (scoreTool rt r') \<ge> 40"
    using scoreTool_all_bounds [of rt r'] by simp
  show ?thesis
    using u q [of r] m [of r] assms(1,2) i50 i60 same_u same_i ge_q ge_m
      q [of "r' \<lparr> github := None, npm := None \<rparr>"] m [of "r' \<lparr> github := None, npm := None \<rparr>"]
    by simp
qed

text \<open>
  The theorem at three plugins without enrichment data: "Foo" (innovation 50), "Aider"
  (whose name contains "ai"; innovation 60) and the one named "A" followed by U+0130,
  whose lower-cased name is "a", "i" and U+0307 and so contains "ai" as well (innovation
  60); and at a record with GitHub data for \<open>r'\<close>.
\<close>

theorem plugin_without_enrichment_witness:
  "usefulnessScore (scoreTool (exRuntime 1) exPlugin) = 90 \<and>
   qualityScore (scoreTool (exRuntime 1) exPlugin) = 30 \<and>
   momentumScore (scoreTool (exRuntime 1) exPlugin) = 40 \<and>
   innovationScore (scoreTool (exRuntime 1) exPlugin) = 50 \<and>
   innovationScore (scoreTool (exRuntime 1) exPluginAi) = 60 \<and>
   innovationText (exRuntime 1) exPluginDotted = [97, 105, 775] @ str '' a claude code plugin'' \<and>
   innovationScore (scoreTool (exRuntime 1) exPluginDotted) = 60 \<and>
   qualityScore (scoreTool (exRuntime 1) (exResearch70 \<lparr> github := None, npm := None \<rparr>)) = 30 \<and>
   qualityScore (scoreTool (exRuntime 1) exResearch70) \<ge> 30"
proof -
  have h: "github exPlugin = None" "npm exPlugin = None"
      "str_includes (description (tool exPlugin)) (str ''Claude Code plugin'')"
      "installCommand (tool exPlugin) = Some (str ''npm i foo'')" "str ''npm i foo'' \<noteq> []"
      "category (tool exPlugin) = ClaudePlugin"
    by (simp_all add: example_defs string_defs)
  have h': "github exPluginAi = None" "npm exPluginAi = None"
      "str_includes (description (tool exPluginAi)) (str ''Claude Code plugin'')"
      "installCommand (tool exPluginAi) = Some (str ''npm i foo'')"
      "category (tool exPluginAi) = ClaudePlugin"
    by (simp_all add: example_defs string_defs)
  have h'': "github exPluginDotted = None" "npm exPluginDotted = None"
      "str_includes (description (tool exPluginDotted)) (str ''Claude Code plugin'')"
      "installCommand (tool exPluginDotted) = Some (str ''npm i foo'')"
      "category (tool exPluginDotted) = ClaudePlugin"
    by (simp_all add: example_defs string_defs)
  have t: "\<not> list_ex (str_includes (innovationText (exRuntime 1) exPlugin)) innovativeTerms"
      "\<not> str_includes (innovationText (exRuntime 1) exPlugin) (str ''ai'')"
      "\<not> str_includes (innovationText (exRuntime 1) exPlugin) (str ''llm'')"
      "\<not> str_includes (innovationText (exRuntime 1) exPlugin) (str ''agent'')"
    by (simp_all add: innovationText_def innovativeTerms_def example_defs string_defs)
  have t': "\<not> list_ex (str_includes (innovationText (exRuntime 1) exPluginAi)) innovativeTerms"
      "str_includes (innovationText (exRuntime 1) exPluginAi) (str ''ai'')"
    by (simp_all add: innovationText_def innovativeTerms_def example_defs string_defs)
  have d: "innovationText (exRuntime 1) exPluginDotted = [97, 105, 775] @ str '' a claude code plugin''"
    by (simp add: innovationText_def example_defs string_defs)
  have t'': "\<not> list_ex (str_includes (innovationText (exRuntime 1) exPluginDotted)) innovativeTerms"
      "str_includes (innovationText (exRuntime 1) exPluginDotted) (str ''ai'')"
    unfolding d by (simp_all add: innovativeTerms_def str_def)
  show ?thesis
    using plugin_without_enrichment [OF h, of "exRuntime 1" exResearch70]
      plugin_without_enrichment [OF h'(1-4) h(5) h'(5), of "exRuntime 1" exResearch70]
      plugin_without_enrichment [OF h''(1-4) h(5) h''(5), of "exRuntime 1" exResearch70]
      t t' t'' d
    by simp
qed
section \<open>Properties of the regular expressions\<close>

lemmas rx_defs = seqs_def lit_def litI_def cunit_def cunitI_def Plus_def LazyPlus_def Opt_def
  space_def dot_def whiteSpace_def lineTerminators_def match_def ms.simps groupAt_def
  replaceFirst_def replaceAll_def replaceAllFrom.simps matchAll_def matchAllFrom.simps
  isWhite_def trim_def splitOn_def

lemmas extract_defs = extractTools_def processLine_def collectLine_def saveTool_def newTool_def
  finalizeTool_def detectCategory_def slugify_def slugSeparators_def slugEdges_def initialState_def
  h3Pattern_def bulletPattern_def installPattern_def githubPattern_def applicationPattern_def
  sourcePattern_def metadataFields_def

subsection \<open>Repetition of a class\<close>

lemma ms_Cls_Cons: "ms (Cls neg rs) (b, x # xs, c) = (if inClass neg rs x then [(False, xs, c)] else [])"
  by (simp add: ms.simps inClass_def)

lemma ms_Star_Cls_head:
  "\<exists>rest. ms (Star (Cls neg rs)) (b, xs, c) =
     (if takeWhile (inClass neg rs) xs = [] then b else False, dropWhile (inClass neg rs) xs, c) # rest"
proof (induction xs arbitrary: b)
  case Nil
  show ?case by (subst ms.simps) (simp add: ms.simps)
next
  case (Cons x xs)
  show ?case
  proof (cases "inClass neg rs x")
    case True
    from Cons.IH [of False] obtain rest where
      r: "ms (Star (Cls neg rs)) (False, xs, c) =
            (if takeWhile (inClass neg rs) xs = [] then False else False, dropWhile (inClass neg rs) xs, c) # rest"
      by blast
    have "ms (Star (Cls neg rs)) (b, x # xs, c) = ms (Star (Cls neg rs)) (False, xs, c) @ [(b, x # xs, c)]"
      by (subst ms.simps) (simp add: ms_Cls_Cons True)
    with r True show ?thesis by simp
  next
    case False
    have "ms (Star (Cls neg rs)) (b, x # xs, c) = [(b, x # xs, c)]"
      by (subst ms.simps) (simp add: ms_Cls_Cons False)
    with False show ?thesis by simp
  qed
qed

lemma ms_Plus_Cls_Nil: "ms (Plus (Cls neg rs)) (b, [], c) = []"
  by (simp add: Plus_def ms.simps)

lemma ms_Plus_Cls_Cons:
  "ms (Plus (Cls neg rs)) (b, x # xs, c) =
     (if inClass neg rs x then ms (Star (Cls neg rs)) (False, xs, c) else [])"
  by (simp add: Plus_def ms.simps inClass_def)

subsection \<open>Global replacement, position by position\<close>

lemma execFrom_pre:
  "execFrom r b (p @ pre) s =
     map_option (\<lambda>(pre', w, post, c). (p @ pre', w, post, c)) (execFrom r b pre s)"
proof (induction s arbitrary: b pre)
  case Nil
  show ?case by (simp split: list.splits)
next
  case (Cons x xs)
  show ?case
  proof (cases "ms r (b, x # xs, [])")
    case Nil
    with Cons.IH [of False "pre @ [x]"] show ?thesis by simp
  next
    case (Cons st sts)
    then show ?thesis by (cases st) simp
  qed
qed

lemma replaceAllFrom_Nil:
  "ms r (b, [], []) = [] \<Longrightarrow> replaceAllFrom r rep b [] = []"
  by (subst replaceAllFrom.simps) simp

lemma replaceAllFrom_Cons_nomatch:
  assumes "ms r (b, x # xs, []) = []"
  shows "replaceAllFrom r rep b (x # xs) = x # replaceAllFrom r rep False xs"
proof -
  have e: "execFrom r b [] (x # xs) =
      map_option (\<lambda>(pre', w, post, c). ([x] @ pre', w, post, c)) (execFrom r False [] xs)"
    using assms execFrom_pre [of r False "[x]" "[]" xs] by simp
  show ?thesis
  proof (cases "execFrom r False [] xs")
    case None
    then have "replaceAllFrom r rep False xs = xs"
      by (subst replaceAllFrom.simps) simp
    moreover from None e have "replaceAllFrom r rep b (x # xs) = x # xs"
      by (subst replaceAllFrom.simps) simp
    ultimately show ?thesis by simp
  next
    case (Some m)
    obtain pre w post c where m: "m = (pre, w, post, c)" by (cases m)
    define k where "k = (if w \<noteq> [] then replaceAllFrom r rep False post
           else (case post of [] \<Rightarrow> [] | y # ys \<Rightarrow> y # replaceAllFrom r rep False ys))"
    from Some m have "replaceAllFrom r rep False xs = pre @ rep @ k"
      unfolding k_def by (subst replaceAllFrom.simps) simp
    moreover from Some m e have "replaceAllFrom r rep b (x # xs) = (x # pre) @ rep @ k"
      unfolding k_def by (subst replaceAllFrom.simps) simp
    ultimately show ?thesis by simp
  qed
qed

lemma replaceAllFrom_Cons_match:
  assumes "ms r (b, x # xs, []) = (b', s', c) # rest" and "length s' \<le> length xs"
  shows "replaceAllFrom r rep b (x # xs) = rep @ replaceAllFrom r rep False s'"
proof -
  have "take (length (x # xs) - length s') (x # xs) \<noteq> []"
    using assms(2) by (simp add: Suc_diff_le)
  then show ?thesis
    using assms(1) by (subst replaceAllFrom.simps) simp
qed


subsection \<open>The two replacements of slugify\<close>

lemma replaceAll_collapse:
  "replaceAllFrom slugSeparators (str ''-'') b s = collapse s"
proof (induction s arbitrary: b rule: collapse.induct)
  case 1
  show ?case by (simp add: replaceAllFrom_Nil ms_Plus_Cls_Nil slugSeparators_def)
next
  case (2 x xs)
  let ?r = "slugSeparators"
  show ?case
  proof (cases "notAlnum x")
    case True
    have cls: "inClass True [(97, 122), (48, 57)] = notAlnum"
      by (rule ext) (simp add: notAlnum_def)
    obtain rest where
      "ms (Star (Cls True [(97, 122), (48, 57)])) (False, xs, []) =
         (if takeWhile notAlnum xs = [] then False else False, dropWhile notAlnum xs, []) # rest"
      using ms_Star_Cls_head [of True "[(97, 122), (48, 57)]" False xs "[]"]
      unfolding cls by blast
    with True have m: "ms ?r (b, x # xs, []) =
         (if takeWhile notAlnum xs = [] then False else False, dropWhile notAlnum xs, []) # rest"
      by (simp add: ms_Plus_Cls_Cons notAlnum_def slugSeparators_def)
    have "replaceAllFrom ?r (str ''-'') b (x # xs) =
        str ''-'' @ replaceAllFrom ?r (str ''-'') False (dropWhile notAlnum xs)"
      by (rule replaceAllFrom_Cons_match [OF m]) (simp add: length_dropWhile_le)
    with True "2.IH"(1) [OF True, of False] show ?thesis by (simp add: str_def)
  next
    case False
    then have "ms ?r (b, x # xs, []) = []"
      by (simp add: ms_Plus_Cls_Cons notAlnum_def slugSeparators_def)
    from replaceAllFrom_Cons_nomatch [OF this] False "2.IH"(2) [OF False, of False]
    show ?thesis by simp
  qed
qed


lemma ms_slugEdges_Nil: "ms slugEdges (b, [], []) = []"
  by (simp add: slugEdges_def lit_def seqs_def cunit_def str_def ms.simps)

lemma ms_slugEdges_Cons:
  "ms slugEdges (b, x # xs, []) =
     (if b \<and> x = 45 then [(False, xs, [])] else []) @
     (if x = 45 \<and> xs = [] then [(False, [], [])] else [])"
  by (auto simp: slugEdges_def lit_def seqs_def cunit_def str_def ms.simps)

lemma replaceAll_strip: "replaceAllFrom slugEdges [] b s = strip b s"
proof (induction s arbitrary: b)
  case Nil
  show ?case by (simp add: replaceAllFrom_Nil ms_slugEdges_Nil)
next
  case (Cons x xs)
  show ?case
  proof (cases "x = 45 \<and> (b \<or> xs = [])")
    case True
    then obtain b' rest where "ms slugEdges (b, x # xs, []) = (b', xs, []) # rest"
      by (cases b; cases "xs = []") (auto simp: ms_slugEdges_Cons)
    from replaceAllFrom_Cons_match [OF this, of "[]"] True Cons.IH [of False]
    show ?thesis by simp
  next
    case False
    then have "ms slugEdges (b, x # xs, []) = []"
      by (auto simp: ms_slugEdges_Cons)
    from replaceAllFrom_Cons_nomatch [OF this, of "[]"] False Cons.IH [of False]
    show ?thesis by simp
  qed
qed

lemma slugify_eq: "slugify s = strip True (collapse (toLowerCase s))"
  by (simp add: slugify_def replaceAll_def replaceAll_collapse replaceAll_strip)

subsection \<open>The shape of a slug\<close>

lemma notAlnum_45: "notAlnum 45"
  by (simp add: notAlnum_def inClass_def)

lemma collapse_head: "xs \<noteq> [] \<Longrightarrow> \<not> notAlnum (hd xs) \<Longrightarrow> hd (collapse xs) = hd xs"
  by (cases xs) auto

lemma dropWhile_notAlnum_head:
  "dropWhile notAlnum xs = [] \<or> \<not> notAlnum (hd (dropWhile notAlnum xs))"
  using hd_dropWhile [of notAlnum xs] by blast

lemma dashed_Cons:
  "dashed (x # ys) = ((\<not> notAlnum x \<or> (x = 45 \<and> (ys = [] \<or> hd ys \<noteq> 45))) \<and> dashed ys)"
  by (cases ys) auto

lemma dashed_collapse: "dashed (collapse s)"
proof (induction s rule: collapse.induct)
  case 1
  show ?case by simp
next
  case (2 x xs)
  show ?case
  proof (cases "notAlnum x")
    case True
    let ?d = "dropWhile notAlnum xs"
    have "collapse ?d = [] \<or> hd (collapse ?d) \<noteq> 45"
    proof (cases "?d = []")
      case True
      then have "collapse ?d = []" by (simp only: collapse.simps)
      then show ?thesis by blast
    next
      case False
      with dropWhile_notAlnum_head [of xs] have n: "\<not> notAlnum (hd ?d)" by blast
      from collapse_head [OF False n] n notAlnum_45 show ?thesis by auto
    qed
    with True "2.IH"(1) show ?thesis by (simp add: dashed_Cons)
  next
    case False
    with "2.IH"(2) show ?thesis by (simp add: dashed_Cons)
  qed
qed

lemma dashed_strip: "dashed s \<Longrightarrow> dashed (strip b s)"
proof (induction s arbitrary: b)
  case Nil
  show ?case by simp
next
  case (Cons x xs)
  from Cons.prems have d: "dashed xs" by (simp add: dashed_Cons)
  have h: "strip False xs = [] \<or> (xs \<noteq> [] \<and> hd (strip False xs) = hd xs)"
    by (cases xs) auto
  from Cons.prems Cons.IH [OF d, of False] h show ?case
    by (auto simp: dashed_Cons)
qed

lemma strip_False_empty: "strip False s = [] \<longleftrightarrow> s = [] \<or> s = [45]"
  by (cases s) auto

lemma strip_False_last: "dashed s \<Longrightarrow> strip False s = [] \<or> last (strip False s) \<noteq> 45"
proof (induction s)
  case Nil
  show ?case by simp
next
  case (Cons x xs)
  from Cons.prems have d: "dashed xs" by (simp add: dashed_Cons)
  from Cons.prems have "xs = [45] \<Longrightarrow> x \<noteq> 45"
    using notAlnum_45 by auto
  with Cons.IH [OF d] show ?case
    by (auto simp: strip_False_empty)
qed

lemma strip_True_ends:
  assumes "dashed s"
  shows "strip True s = [] \<or> (hd (strip True s) \<noteq> 45 \<and> last (strip True s) \<noteq> 45)"
proof (cases s)
  case Nil
  then show ?thesis by simp
next
  case (Cons x xs)
  show ?thesis
  proof (cases "x = 45")
    case True
    have "strip False xs = [] \<or> (xs \<noteq> [] \<and> hd (strip False xs) = hd xs)"
      by (cases xs) auto
    moreover from assms Cons have "dashed xs" by (simp add: dashed_Cons)
    ultimately show ?thesis
      using assms Cons True strip_False_last [of xs] notAlnum_45
      by (auto simp: dashed_Cons)
  next
    case False
    from assms Cons have "dashed xs" by (simp add: dashed_Cons)
    with False Cons strip_False_last [of xs] show ?thesis by auto
  qed
qed

lemma collapse_dashed: "dashed s \<Longrightarrow> collapse s = s"
proof (induction s rule: collapse.induct)
  case 1
  show ?case by simp
next
  case (2 x xs)
  from "2.prems" have d: "dashed xs" by (simp add: dashed_Cons)
  show ?case
  proof (cases "notAlnum x")
    case True
    with "2.prems" have x: "x = 45" and n: "xs = [] \<or> hd xs \<noteq> 45"
      by (auto simp: dashed_Cons)
    from d n have "xs = [] \<or> \<not> notAlnum (hd xs)"
      by (cases xs) (auto simp: dashed_Cons)
    then have dw: "dropWhile notAlnum xs = xs" by (cases xs) auto
    from "2.IH"(1) [OF True] d dw True x show ?thesis by simp
  next
    case False
    with "2.IH"(2) d show ?thesis by simp
  qed
qed

lemma strip_False_id: "s = [] \<or> last s \<noteq> 45 \<Longrightarrow> strip False s = s"
  by (induction s) (auto split: if_splits)

lemma strip_True_id: "s = [] \<or> (hd s \<noteq> 45 \<and> last s \<noteq> 45) \<Longrightarrow> strip True s = s"
  using strip_False_id [of "tl s"] by (cases s) (auto split: if_splits)

lemma toLowerCase_dashed: "dashed s \<Longrightarrow> toLowerCase s = s"
proof (induction s)
  case Nil
  show ?case by (simp add: toLowerCase_def)
next
  case (Cons x xs)
  from Cons.prems have "\<not> notAlnum x \<or> x = 45" and "dashed xs"
    by (auto simp: dashed_Cons)
  then have "lowerUnit x = x" "toLowerCase xs = xs"
    using Cons.IH by (auto simp: lowerUnit_def notAlnum_def inClass_def)
  then show ?case by (simp add: toLowerCase_def)
qed

lemma slugify_slugify: "slugify (slugify s) = slugify s"
proof -
  let ?t = "slugify s"
  have d: "dashed ?t"
    unfolding slugify_eq by (intro dashed_strip dashed_collapse)
  have e: "?t = [] \<or> (hd ?t \<noteq> 45 \<and> last ?t \<noteq> 45)"
    unfolding slugify_eq by (intro strip_True_ends dashed_collapse)
  have "slugify ?t = strip True (collapse (toLowerCase ?t))"
    by (rule slugify_eq)
  also have "\<dots> = strip True ?t"
    by (simp add: toLowerCase_dashed [OF d] collapse_dashed [OF d])
  also have "\<dots> = ?t"
    by (rule strip_True_id [OF e])
  finally show ?thesis .
qed


text \<open>
  C7. \<open>slugify\<close> is a function of its argument alone and returns a string for every
  string; applying it to a slug returns that slug, and the slug of
  "Claude Code Memory Plugin" is "claude-code-memory-plugin".
\<close>

theorem slugify_idempotent:
  "slugify (slugify s) = slugify s \<and>
   slugify (str ''Claude Code Memory Plugin'') = str ''claude-code-memory-plugin''"
proof
  show "slugify (slugify s) = slugify s" by (rule slugify_slugify)
  show "slugify (str ''Claude Code Memory Plugin'') = str ''claude-code-memory-plugin''"
    by (simp add: slugify_def slugSeparators_def slugEdges_def rx_defs string_defs
          cong: let_weak_cong)
qed

section \<open>Properties of the tool extractor\<close>

subsection \<open>Anchored patterns\<close>

lemma ms_Bol_False: "ms (Seq Bol r) (False, s, c) = []"
  by (simp add: ms.simps)

lemma ms_Bol_True: "ms (Seq Bol r) (True, s, c) = ms r (True, s, c)"
  by (simp add: ms.simps)

lemma execFrom_Bol_False: "execFrom (Seq Bol r) False pre s = None"
  by (induction s arbitrary: pre) (simp_all add: ms_Bol_False)

lemma match_Bol:
  "match (Seq Bol r) s =
     (case ms r (True, s, []) of
        [] \<Rightarrow> None
      | (b', s', c) # _ \<Rightarrow> Some ([], take (length s - length s') s, s', c))"
  by (cases s) (auto simp: match_def ms_Bol_True execFrom_Bol_False split: list.splits)

lemma ms_Seq_Nil: "ms r1 st = [] \<Longrightarrow> ms (Seq r1 r2) st = []"
  by (simp add: ms.simps)

lemma bulletPattern_first:
  assumes "match bulletPattern s = Some m"
  shows "\<exists>x xs. s = x # xs \<and> in_ranges bulletMarkers x"
proof (cases s)
  case Nil
  have "ms (Plus (Cls False bulletMarkers)) (True, [], []) = []"
    by (rule ms_Plus_Cls_Nil)
  then have "match bulletPattern [] = None"
    unfolding bulletPattern_def seqs_def bulletMarkers_def
    by (simp add: match_Bol ms_Seq_Nil)
  with assms Nil show ?thesis by simp
next
  case (Cons x xs)
  show ?thesis
  proof (cases "in_ranges bulletMarkers x")
    case True
    with Cons show ?thesis by blast
  next
    case False
    then have "ms (Plus (Cls False bulletMarkers)) (True, x # xs, []) = []"
      by (simp add: ms_Plus_Cls_Cons inClass_def)
    then have "match bulletPattern (x # xs) = None"
      unfolding bulletPattern_def seqs_def bulletMarkers_def
      by (simp add: match_Bol ms_Seq_Nil)
    with assms Cons show ?thesis by simp
  qed
qed

lemma h3Pattern_Nil: "match h3Pattern [] = None"
  unfolding h3Pattern_def seqs_def lit_def cunit_def
  by (simp add: match_Bol str_def ms.simps(2,4))

lemma h3Pattern_first: "x \<noteq> 35 \<Longrightarrow> match h3Pattern (x # xs) = None"
  unfolding h3Pattern_def seqs_def lit_def cunit_def
  by (simp add: match_Bol str_def ms.simps(3,4))

lemma bullet_line_is_no_heading:
  assumes "match bulletPattern s = Some m"
  shows "match h3Pattern s = None"
proof -
  from bulletPattern_first [OF assms] obtain x xs where
    s: "s = x # xs" and x: "in_ranges bulletMarkers x" by blast
  have "\<not> in_ranges bulletMarkers 35"
    by (simp add: bulletMarkers_def whiteSpace_def)
  with x have "x \<noteq> 35" by auto
  with s show ?thesis by (simp add: h3Pattern_first)
qed

subsection \<open>Reserved field names\<close>

lemma isWhite_lowerUnit: "isWhite (lowerUnit c) = isWhite c"
  by (auto simp: isWhite_def lowerUnit_def whiteSpace_def)

lemma dropWhile_isWhite_toLowerCase:
  "dropWhile isWhite (toLowerCase s) = toLowerCase (dropWhile isWhite s)"
  by (induction s) (simp_all add: toLowerCase_def isWhite_lowerUnit)

lemma toLowerCase_rev: "toLowerCase (rev s) = rev (toLowerCase s)"
  by (simp add: toLowerCase_def rev_map)

lemma trim_toLowerCase: "trim (toLowerCase s) = toLowerCase (trim s)"
  by (simp add: trim_def dropWhile_isWhite_toLowerCase toLowerCase_rev [symmetric])

lemma metadataFields_fixed:
  assumes "f \<in> set metadataFields"
  shows "replaceUnit 58 [] (trim f) = f \<and> replaceUnit 58 [] (trim (f @ str '':'')) = f"
  using assms
  by (auto simp: metadataFields_def str_def trim_def isWhite_def whiteSpace_def)

lemma reserved_name:
  assumes "toLowerCase nm \<in> set metadataFields \<or>
           (\<exists>f\<in>set metadataFields. toLowerCase nm = f @ str '':'')"
  shows "replaceUnit 58 [] (toLowerCase (trim nm)) \<in> set metadataFields"
  using assms metadataFields_fixed
  by (auto simp: trim_toLowerCase [symmetric])

subsection \<open>Names and slugs of the extracted tools\<close>

lemma orElse_nonempty: "d \<noteq> [] \<Longrightarrow> orElse x d \<noteq> []"
  by (cases x) auto

lemma finalizeTool_name: "name (finalizeTool now p d) \<noteq> []"
  by (simp add: finalizeTool_def orElse_nonempty str_def)

lemma saveTool_names:
  "list_all (\<lambda>t. name t \<noteq> []) (tools st) \<Longrightarrow>
   list_all (\<lambda>t. name t \<noteq> []) (tools (saveTool now st))"
  by (simp add: saveTool_def Let_def finalizeTool_name split: option.splits)

lemma processLine_names:
  "list_all (\<lambda>t. name t \<noteq> []) (tools st) \<Longrightarrow>
   list_all (\<lambda>t. name t \<noteq> []) (tools (processLine now st line))"
  by (simp add: processLine_def collectLine_def Let_def saveTool_names split: option.splits)

lemma extractLoop_names:
  "list_all (\<lambda>t. name t \<noteq> []) (tools st) \<Longrightarrow>
   list_all (\<lambda>t. name t \<noteq> []) (tools (extractLoop clock i ls st))"
  by (induction ls arbitrary: st i) (simp_all add: processLine_names)

lemma extractTools_names:
  "list_all (\<lambda>t. name t \<noteq> []) (extractTools clock content)"
  by (simp add: extractTools_def Let_def saveTool_names extractLoop_names initialState_def)

text \<open>
  C6. Every extracted tool has a non-empty name, but not every one has a non-empty slug:
  the heading "### !!!" yields a tool named "!!!" whose slug is the empty string, because
  \<open>slugify\<close> sends a name without letters and digits to the empty string and the fallback
  in \<open>finalizeTool\<close> slugifies the same name again. \<open>slugify\<close> of the empty string is
  the empty string as well; the fallbacks "Unknown" and "unknown" of \<open>finalizeTool\<close> are
  reached by a partial tool without name and slug only.
\<close>

theorem extractTools_symbol_name_empty_slug:
  "list_all (\<lambda>t. name t \<noteq> []) (extractTools clock content) \<and>
   extractTools clock (str ''### !!!'') =
     [\<lparr> name = str ''!!!'', slug = [], description = [], installCommand = None,
        githubUrl = None, source = None, category = Other,
        extractedAt = orElse (Some (clock 0)) (clock 1) \<rparr>] \<and>
   slugify (str ''!!!'') = [] \<and> slugify [] = [] \<and>
   name (finalizeTool now
     \<lparr> pName = None, pSlug = None, pInstallCommand = None, pGithubUrl = None, pSource = None,
       pExtractedAt = None \<rparr> []) = str ''Unknown'' \<and>
   slug (finalizeTool now
     \<lparr> pName = None, pSlug = None, pInstallCommand = None, pGithubUrl = None, pSource = None,
       pExtractedAt = None \<rparr> []) = str ''unknown''"
proof -
  have "extractTools clock (str ''### !!!'') =
     [\<lparr> name = str ''!!!'', slug = [], description = [], installCommand = None,
        githubUrl = None, source = None, category = Other,
        extractedAt = orElse (Some (clock 0)) (clock 1) \<rparr>]"
    by (simp add: extract_defs rx_defs string_defs Let_def cong: let_weak_cong)
  moreover have "slugify (str ''!!!'') = []" "slugify [] = []"
    by (simp_all add: slugify_eq toLowerCase_def lowerUnit_def notAlnum_def inClass_def str_def)
  moreover have "slugify (str ''unknown'') = str ''unknown''"
    by (simp add: slugify_eq toLowerCase_def lowerUnit_def notAlnum_def inClass_def str_def)
  ultimately show ?thesis
    using extractTools_names [of clock content] by (simp add: finalizeTool_def)
qed

subsection \<open>The digest of one tool\<close>

text \<open>
  C3. From the four lines "### Aider", "An AI pair programming CLI.",
  "**Installation:** `pip install aider`" and
  "**GitHub:** https://github.com/paul-gauthier/aider", with or without a final newline,
  \<open>extractTools\<close> returns exactly one tool: name "Aider", slug "aider", install command
  "pip install aider", GitHub URL "https://github.com/paul-gauthier/aider", category
  \<open>cli-tool\<close>.
\<close>

theorem extractTools_aider:
  "extractTools clock aiderText =
     [\<lparr> name = str ''Aider'', slug = str ''aider'',
        description = str ''An AI pair programming CLI.'',
        installCommand = Some (str ''pip install aider''),
        githubUrl = Some (str ''https://github.com/paul-gauthier/aider''),
        source = None, category = CliTool,
        extractedAt = orElse (Some (clock 0)) (clock 4) \<rparr>] \<and>
   extractTools clock (aiderText @ str ''\<newline>'') =
     [\<lparr> name = str ''Aider'', slug = str ''aider'',
        description = str ''An AI pair programming CLI.'',
        installCommand = Some (str ''pip install aider''),
        githubUrl = Some (str ''https://github.com/paul-gauthier/aider''),
        source = None, category = CliTool,
        extractedAt = orElse (Some (clock 0)) (clock 5) \<rparr>]"
proof -
  have four: "clock 4 = clock (Suc (Suc (Suc (Suc 0))))"
    and five: "clock 5 = clock (Suc (Suc (Suc (Suc (Suc 0)))))"
    by (simp_all add: eval_nat_numeral)
  show ?thesis
    unfolding four five
    by (simp add: aiderText_def extract_defs rx_defs string_defs Let_def cong: let_weak_cong)
qed

subsection \<open>Metadata bullets\<close>

text \<open>
  C4. A line on which the bullet pattern matches with a bold name that, lower-cased, is a
  reserved field name or a reserved field name followed by a colon, is no boundary: the
  tools found so far and the current tool stay as they are, and the line is appended to
  the block of the current tool when there is one. In particular "- **GitHub:**
  https://github.com/x/y" below the heading "### Foo" yields the single tool "Foo" with
  that GitHub URL, and no tool named "GitHub".
\<close>

theorem metadata_bullet_is_block_content:
  assumes "match bulletPattern (trim line) = Some m"
    and "toLowerCase (groupAt m 1) \<in> set metadataFields \<or>
         (\<exists>f\<in>set metadataFields. toLowerCase (groupAt m 1) = f @ str '':'')"
  shows "tools (processLine now st line) = tools st \<and>
         currentTool (processLine now st line) = currentTool st \<and>
         currentBlock (processLine now st line) =
           (case currentTool st of None \<Rightarrow> currentBlock st | Some ct \<Rightarrow> currentBlock st @ [line]) \<and>
         extractTools clock (str ''### Foo\<newline>- **GitHub:** https://github.com/x/y'') =
           [\<lparr> name = str ''Foo'', slug = str ''foo'', description = [], installCommand = None,
              githubUrl = Some (str ''https://github.com/x/y''), source = None, category = Other,
              extractedAt = orElse (Some (clock 0)) (clock 2) \<rparr>]"
proof -
  have h3: "match h3Pattern (trim line) = None"
    by (rule bullet_line_is_no_heading [OF assms(1)])
  have reserved: "replaceUnit 58 [] (toLowerCase (trim (groupAt m 1))) \<in> set metadataFields"
    by (rule reserved_name [OF assms(2)])
  have step: "processLine now st line = collectLine st line (trim line)"
    using h3 assms(1) reserved by (simp add: processLine_def Let_def)
  have general: "tools (processLine now st line) = tools st \<and>
         currentTool (processLine now st line) = currentTool st \<and>
         currentBlock (processLine now st line) =
           (case currentTool st of None \<Rightarrow> currentBlock st | Some ct \<Rightarrow> currentBlock st @ [line])"
    unfolding step by (simp add: collectLine_def Let_def split: option.splits)
  have two: "clock 2 = clock (Suc (Suc 0))"
    by (simp add: eval_nat_numeral)
  have particular: "extractTools clock (str ''### Foo\<newline>- **GitHub:** https://github.com/x/y'') =
           [\<lparr> name = str ''Foo'', slug = str ''foo'', description = [], installCommand = None,
              githubUrl = Some (str ''https://github.com/x/y''), source = None, category = Other,
              extractedAt = orElse (Some (clock 0)) (clock 2) \<rparr>]"
    unfolding two
    by (simp add: extract_defs rx_defs string_defs Let_def cong: let_weak_cong)
  from general particular show ?thesis by simp
qed

text \<open>
  The theorem at the GitHub bullet in the state reached after the heading "### Foo".
\<close>

theorem metadata_bullet_is_block_content_witness:
  "tools (processLine exNow exActive exGithubLine) = [] \<and>
   currentTool (processLine exNow exActive exGithubLine) = Some (newTool exNow (str ''Foo'')) \<and>
   currentBlock (processLine exNow exActive exGithubLine) = [exGithubLine]"
proof -
  have active: "exActive = \<lparr> tools = [], currentTool = Some (newTool exNow (str ''Foo'')),
                             currentDescription = [], currentBlock = [] \<rparr>"
    unfolding exActive_def
    by (simp add: processLine_def saveTool_def initialState_def h3Pattern_def rx_defs string_defs
          Let_def cong: let_weak_cong)
  have m: "match bulletPattern (trim exGithubLine) =
      Some ([], exGithubLine, [], [(2, str ''https://github.com/x/y''), (1, str ''GitHub:'')])"
    unfolding exGithubLine_def
    by (simp add: bulletPattern_def rx_defs string_defs cong: let_weak_cong)
  have f: "toLowerCase (groupAt ([], exGithubLine, [], [(2, str ''https://github.com/x/y''), (1, str ''GitHub:'')]) 1)
             \<in> set metadataFields \<or>
           (\<exists>f\<in>set metadataFields.
              toLowerCase (groupAt ([], exGithubLine, [], [(2, str ''https://github.com/x/y''), (1, str ''GitHub:'')]) 1)
                = f @ str '':'')"
    by (simp add: groupAt_def metadataFields_def string_defs)
  from metadata_bullet_is_block_content [OF m f, of exNow exActive] show ?thesis
    by (simp add: active)
qed

subsection \<open>The clock\<close>

lemma eraseTime_idem: "eraseTime \<circ> eraseTime = eraseTime"
  by (rule ext) (simp add: eraseTime_def)

lemma erasePartial_idem: "erasePartial (erasePartial p) = erasePartial p"
  by (simp add: erasePartial_def)

lemma eraseState_idem: "eraseState (eraseState st) = eraseState st"
  by (cases "currentTool st") (simp_all add: eraseState_def eraseTime_idem erasePartial_idem)

lemma finalizeTool_erase:
  "eraseTime (finalizeTool now p d) = eraseTime (finalizeTool now' (erasePartial p) d)"
  by (simp add: finalizeTool_def eraseTime_def erasePartial_def)

lemma saveTool_erase:
  "eraseState (saveTool now st) = eraseState (saveTool now' (eraseState st))"
proof (cases "currentTool st")
  case None
  then show ?thesis by (simp add: saveTool_def eraseState_def eraseTime_idem)
next
  case (Some ct)
  show ?thesis
  proof (cases "truthy (pName ct)")
    case False
    with Some show ?thesis
      by (simp add: saveTool_def eraseState_def erasePartial_def eraseTime_idem)
  next
    case True
    define blockText where "blockText = join (str ''\<newline>'') (currentBlock st)"
    define upd where "upd = (\<lambda>p :: PartialTool.
        let p = (case match installPattern blockText of
                   None \<Rightarrow> p
                 | Some installMatch \<Rightarrow> p \<lparr> pInstallCommand := Some (trim (groupAt installMatch 1)) \<rparr>);
            p = (case match githubPattern blockText of
                   None \<Rightarrow> p
                 | Some githubMatch \<Rightarrow> p \<lparr> pGithubUrl := Some (trim (groupAt githubMatch 1)) \<rparr>)
        in (case match sourcePattern blockText of
                   None \<Rightarrow> p
                 | Some sourceMatch \<Rightarrow> p \<lparr> pSource := Some (trim (groupAt sourceMatch 1)) \<rparr>))"
    define descr where "descr = (case match applicationPattern blockText of
                            None \<Rightarrow> currentDescription st
                          | Some appMatch \<Rightarrow>
                              if currentDescription st = []
                              then currentDescription st @ [trim (groupAt appMatch 1)]
                              else currentDescription st)"
    have u: "upd (erasePartial p) = erasePartial (upd p)" for p
      by (simp add: upd_def erasePartial_def Let_def split: option.splits)
    have s1: "saveTool t x = x \<lparr> tools := tools x @ [finalizeTool t (upd c) (join (str '' '') descr)],
                     currentTool := Some (upd c), currentDescription := descr \<rparr>"
      if "currentTool x = Some c" "truthy (pName c)" "currentBlock x = currentBlock st"
         "currentDescription x = currentDescription st" for t x c
      using that
      by (simp add: saveTool_def upd_def descr_def blockText_def Let_def split: option.splits)
    have l: "saveTool now st = st \<lparr> tools := tools st @ [finalizeTool now (upd ct) (join (str '' '') descr)],
                     currentTool := Some (upd ct), currentDescription := descr \<rparr>"
      using Some True by (intro s1) simp_all
    have r: "saveTool now' (eraseState st) =
        (eraseState st) \<lparr> tools := tools (eraseState st) @
             [finalizeTool now' (upd (erasePartial ct)) (join (str '' '') descr)],
           currentTool := Some (upd (erasePartial ct)), currentDescription := descr \<rparr>"
      using Some True by (intro s1) (simp_all add: eraseState_def erasePartial_def)
    show ?thesis
      unfolding l r
      using finalizeTool_erase [of now "upd ct" "join (str '' '') descr" now']
      by (simp add: eraseState_def u eraseTime_idem erasePartial_idem
            finalizeTool_erase [of now' "erasePartial (upd ct)" _ now, symmetric])
  qed
qed


lemma tools_eraseState: "tools (eraseState st) = map eraseTime (tools st)"
  by (simp add: eraseState_def)

lemma saveTool_erase_tools:
  "map eraseTime (tools (saveTool now st)) = map eraseTime (tools (saveTool now' (eraseState st)))"
  using arg_cong [OF saveTool_erase [of now st now'], of tools]
  by (simp only: tools_eraseState)

lemma erasePartial_newTool: "erasePartial (newTool now nm) = erasePartial (newTool now' nm)"
  by (simp add: erasePartial_def newTool_def)

lemma start_erase:
  "eraseState ((saveTool now st) \<lparr> currentTool := Some (newTool now nm),
       currentDescription := d, currentBlock := [] \<rparr>) =
   eraseState ((saveTool now' (eraseState st)) \<lparr> currentTool := Some (newTool now' nm),
       currentDescription := d, currentBlock := [] \<rparr>)"
  using saveTool_erase_tools [of now st now'] erasePartial_newTool [of now nm now']
  by (simp add: eraseState_def)

lemma collectLine_erase:
  "eraseState (collectLine st line trimmed) = eraseState (collectLine (eraseState st) line trimmed)"
  by (cases "currentTool st")
     (simp_all add: collectLine_def eraseState_def Let_def eraseTime_idem erasePartial_idem)

lemma processLine_erase:
  "eraseState (processLine now st line) = eraseState (processLine now' (eraseState st) line)"
proof (cases "match h3Pattern (trim line)")
  case (Some h3Match)
  then show ?thesis
    unfolding processLine_def Let_def by (simp only: option.case) (rule start_erase)
next
  case None
  note h3 = this
  show ?thesis
  proof (cases "match bulletPattern (trim line)")
    case None
    with h3 show ?thesis
      unfolding processLine_def Let_def by (simp only: option.case) (rule collectLine_erase)
  next
    case (Some bulletMatch)
    show ?thesis
    proof (cases "replaceUnit 58 [] (toLowerCase (trim (groupAt bulletMatch 1))) \<in> set metadataFields")
      case True
      with h3 Some show ?thesis
        unfolding processLine_def Let_def
        by (simp only: option.case if_False not_True_eq_False) (rule collectLine_erase)
    next
      case False
      with h3 Some show ?thesis
        unfolding processLine_def Let_def
        by (simp only: option.case if_True not_False_eq_True) (rule start_erase)
    qed
  qed
qed

lemma processLine_same:
  assumes "eraseState st = eraseState st'"
  shows "eraseState (processLine now st line) = eraseState (processLine now' st' line)"
proof -
  have "eraseState (processLine now st line) = eraseState (processLine [] (eraseState st) line)"
    by (rule processLine_erase)
  also have "\<dots> = eraseState (processLine [] (eraseState st') line)"
    by (simp only: assms)
  also have "\<dots> = eraseState (processLine now' st' line)"
    by (rule processLine_erase [symmetric])
  finally show ?thesis .
qed

lemma extractLoop_same:
  "eraseState st = eraseState st' \<Longrightarrow>
   eraseState (extractLoop clock i ls st) = eraseState (extractLoop clock' i' ls st')"
proof (induction ls arbitrary: st st' i i')
  case Nil
  then show ?case by simp
next
  case (Cons l ls)
  from processLine_same [OF Cons.prems]
  have "eraseState (processLine (clock i) st l) = eraseState (processLine (clock' i') st' l)" .
  from Cons.IH [OF this] show ?case by simp
qed

lemma saveTool_same:
  assumes "eraseState st = eraseState st'"
  shows "map eraseTime (tools (saveTool now st)) = map eraseTime (tools (saveTool now' st'))"
proof -
  have "map eraseTime (tools (saveTool now st)) = map eraseTime (tools (saveTool [] (eraseState st)))"
    by (rule saveTool_erase_tools)
  also have "\<dots> = map eraseTime (tools (saveTool [] (eraseState st')))"
    by (simp only: assms)
  also have "\<dots> = map eraseTime (tools (saveTool now' st'))"
    by (rule saveTool_erase_tools [symmetric])
  finally show ?thesis .
qed

lemma extractTools_erase:
  "map eraseTime (extractTools clock content) = map eraseTime (extractTools clock' content)"
  unfolding extractTools_def Let_def
  by (rule saveTool_same) (rule extractLoop_same, rule refl)

text \<open>
  C8, as the code has it. Every tool carries \<open>extractedAt\<close>, the reading of the clock when
  its boundary line was processed: two runs on the same text at different times return
  different lists.
\<close>

theorem extractTools_clock_counterexample:
  "extractTools exClockA (str ''### A'') \<noteq> extractTools exClockB (str ''### A'')"
  by (simp add: extract_defs rx_defs string_defs exClockA_def exClockB_def Let_def cong: let_weak_cong)

text \<open>
  C8, amended. Two runs of \<open>extractTools\<close> on the same text return lists that agree in
  every field of every tool except \<open>extractedAt\<close>. (\<open>extractNews\<close> does not read the clock:
  it is a function of the text alone.)
\<close>

theorem extractTools_same_up_to_clock:
  "map (\<lambda>t. t \<lparr> extractedAt := [] \<rparr>) (extractTools clock content) =
   map (\<lambda>t. t \<lparr> extractedAt := [] \<rparr>) (extractTools clock' content)"
  using extractTools_erase [of clock content clock'] by (simp add: eraseTime_def [abs_def])

subsection \<open>News\<close>






end
